theory Spec2Isabelle
  imports
    Complex_Main
    "HOL-Library.Stream"
    "HOL-Library.Char_ord"
    "HOL-Library.List_Lexorder"
begin

section \<open>Crop prediction notebook (model.ipynb): a shallow embedding\<close>

text \<open>
  The notebook defines five functions: \<open>preprocess_data\<close>, \<open>train_and_evaluate_model\<close>,
  \<open>get_valid_input\<close>, \<open>predict_and_send_to_firebase\<close> and \<open>main\<close>. They are embedded
  below in the order of the notebook. Everything the notebook imports (pandas, scikit-learn,
  the firebase client, the builtins \<open>input\<close> and \<open>float\<close>) is not part of the notebook:
  the scikit-learn operations are modelled from the written specification, each under a comment
  that says so, and the remaining collaborators are parameters collected in the record \<open>env\<close>.
  A function returns \<open>Inl e\<close> where the Python raises the exception \<open>e\<close>, and \<open>Inr v\<close>
  where it returns \<open>v\<close>.
\<close>

subsection \<open>Python values\<close>

text \<open>
  A Python \<open>float\<close>: a finite number, one of the two infinities, or NaN. Rounding to 53 bits
  is not modelled; a finite float is identified with the real number it denotes.
\<close>

datatype pyfloat = Finite real | PlusInf | MinusInf | NaN

text \<open>
  The comparison \<open>a <= b\<close> of Python numbers. Every comparison with NaN is false; an
  \<open>int\<close> operand is compared by its exact value, so it enters as \<open>Finite (of_int i)\<close>.
\<close>

fun py_le :: "pyfloat \<Rightarrow> pyfloat \<Rightarrow> bool" where
  "py_le NaN _ = False"
| "py_le _ NaN = False"
| "py_le MinusInf _ = True"
| "py_le _ PlusInf = True"
| "py_le (Finite x) (Finite y) = (x \<le> y)"
| "py_le (Finite x) MinusInf = False"
| "py_le PlusInf (Finite y) = False"
| "py_le PlusInf MinusInf = False"

text \<open>
  Exceptions. \<open>EOFError\<close>, \<open>KeyError\<close>, \<open>ValueError\<close> and \<open>IndexError\<close> are raised by
  the Python of the notebook itself; \<open>UnknownLabel\<close>, \<open>InvalidCode\<close>, \<open>DimensionMismatch\<close>,
  \<open>DegenerateDataset\<close>, \<open>FormatError\<close> and \<open>RemoteUnavailable\<close> are the error kinds the
  specification names for the collaborators. All of them are subclasses of \<open>Exception\<close>.
\<close>

datatype error =
    EOFError
  | KeyError string
  | ValueError
  | IndexError
  | UnknownLabel
  | InvalidCode
  | DimensionMismatch
  | DegenerateDataset
  | FormatError
  | RemoteUnavailable string

text \<open>What \<open>firebase_connection.get\<close> returns when it is not \<open>None\<close>: a decoded JSON value.\<close>

datatype json =
    JBool bool
  | JNum real
  | JStr string
  | JArr "json list"
  | JObj "(string \<times> json) list"

subsection \<open>Tables\<close>

text \<open>
  A pandas \<open>DataFrame\<close>: named columns in file order, all of the same length. A column holds
  numbers or strings.
\<close>

datatype column = Num "real list" | Str "string list"

type_synonym dataframe = "(string \<times> column) list"

fun column_head :: "nat \<Rightarrow> column \<Rightarrow> column" where
  "column_head n (Num xs) = Num (take n xs)"
| "column_head n (Str xs) = Str (take n xs)"

text \<open>\<open>data.head(n)\<close>\<close>

definition head :: "nat \<Rightarrow> dataframe \<Rightarrow> dataframe" where
  "head n data = map (\<lambda>(name, c). (name, column_head n c)) data"

text \<open>\<open>data[name]\<close>: a missing column raises \<open>KeyError\<close>.\<close>

definition get_column :: "dataframe \<Rightarrow> string \<Rightarrow> error + column" where
  "get_column data name =
     (case map_of data name of None \<Rightarrow> Inl (KeyError name) | Some c \<Rightarrow> Inr c)"

text \<open>\<open>data[name] = c\<close>: an existing column is replaced in place, a new one is appended.\<close>

definition set_column :: "dataframe \<Rightarrow> string \<Rightarrow> column \<Rightarrow> dataframe" where
  "set_column data name c =
     (if name \<in> set (map fst data)
      then map (\<lambda>(n, old). if n = name then (n, c) else (n, old)) data
      else data @ [(name, c)])"

text \<open>\<open>data.drop(columns=names)\<close>: a name that is no column raises \<open>KeyError\<close>.\<close>

definition drop_columns :: "string list \<Rightarrow> dataframe \<Rightarrow> error + dataframe" where
  "drop_columns names data =
     (case filter (\<lambda>n. n \<notin> set (map fst data)) names of
        [] \<Rightarrow> Inr (filter (\<lambda>(n, c). n \<notin> set names) data)
      | n # _ \<Rightarrow> Inl (KeyError n))"

text \<open>
  The numeric matrix of a frame of \<open>n\<close> rows, row by row, as scikit-learn reads it. A string
  column cannot be converted to float: \<open>ValueError\<close>. Every column of a frame has \<open>n\<close>
  entries; a table that breaks this is no \<open>DataFrame\<close> and is reported as \<open>FormatError\<close>.
\<close>

fun numeric_column :: "column \<Rightarrow> error + real list" where
  "numeric_column (Num xs) = Inr xs"
| "numeric_column (Str xs) = Inl ValueError"

fun traverse :: "('a \<Rightarrow> error + 'b) \<Rightarrow> 'a list \<Rightarrow> error + 'b list" where
  "traverse f [] = Inr []"
| "traverse f (x # xs) =
     (case f x of
        Inl e \<Rightarrow> Inl e
      | Inr y \<Rightarrow> (case traverse f xs of Inl e \<Rightarrow> Inl e | Inr ys \<Rightarrow> Inr (y # ys)))"

definition to_rows :: "nat \<Rightarrow> dataframe \<Rightarrow> error + real list list" where
  "to_rows n X =
     (case traverse numeric_column (map snd X) of
        Inl e \<Rightarrow> Inl e
      | Inr cols \<Rightarrow>
          if list_all (\<lambda>c. length c = n) cols
          then Inr (map (\<lambda>i. map (\<lambda>c. c ! i) cols) [0..<n])
          else Inl FormatError)"

subsection \<open>The process: standard input and standard output\<close>

text \<open>
  Standard input is a stream of lines; \<open>None\<close> is end of file. Standard output is the list of
  what was written, oldest first. Each \<open>print\<close> of the notebook is one event: \<open>Print s\<close> for a
  constant text, and one constructor for each formatted text:
  \<^item> \<open>Prompt p\<close>: the prompt written by \<open>input(p)\<close>;
  \<^item> \<open>Print_head d\<close>: \<open>print(data.head(1))\<close>;
  \<^item> \<open>Print_range lo hi\<close>: \<open>print(f"Please enter a value between {min_val} and {max_val}.")\<close>;
  \<^item> \<open>Print_report r\<close>: \<open>print(classification_report(...))\<close>;
  \<^item> \<open>Print_accuracy a\<close>: \<open>print(f"Model Accuracy: {accuracy * 100:.2f}%")\<close>, with \<open>a\<close> the
    percentage;
  \<^item> \<open>Print_predicted c\<close>: \<open>print(f"The predicted crop is: {predicted_crop}")\<close>;
  \<^item> \<open>Print_firebase_error e\<close>: \<open>print(f"Error sending data to Firebase: {e}")\<close>.
\<close>

record class_metrics =
  precision :: real
  recall :: real
  f1 :: real
  support :: nat

record report =
  per_class :: "(string \<times> class_metrics) list"
  accuracy :: real
  macro_avg :: class_metrics
  weighted_avg :: class_metrics

datatype event =
    Prompt string
  | Print string
  | Print_head dataframe
  | Print_range int int
  | Print_report report
  | Print_accuracy real
  | Print_predicted string
  | Print_firebase_error error

record world =
  stdin :: "string option stream"
  stdout :: "event list"

definition print :: "event \<Rightarrow> world \<Rightarrow> world" where
  "print e w = w\<lparr>stdout := stdout w @ [e]\<rparr>"

text \<open>
  The builtin \<open>input(prompt)\<close>: writes the prompt, then reads one line; at end of file it
  raises \<open>EOFError\<close>.
\<close>

definition input :: "string \<Rightarrow> world \<Rightarrow> (error + string) \<times> world" where
  "input prompt w =
     (let w1 = print (Prompt prompt) w in
      case shd (stdin w1) of
        None \<Rightarrow> (Inl EOFError, w1)
      | Some line \<Rightarrow> (Inr line, w1\<lparr>stdin := stl (stdin w1)\<rparr>))"

subsection \<open>Collaborators that are parameters\<close>

text \<open>
  \<^item> \<open>py_float\<close>: the builtin \<open>float\<close> on a string; \<open>None\<close> is \<open>ValueError\<close>, the only
    exception it raises on a string.
  \<^item> \<open>rng_permutation seed n\<close>: the permutation of \<open>0..<n\<close> that the seeded generator draws.
  \<^item> \<open>read_csv\<close>: \<open>pd.read_csv\<close>.
  \<^item> \<open>tree_fit X y\<close>: \<open>DecisionTreeClassifier().fit(X, y)\<close>, as the function that its
    \<open>predict\<close> applies to one row.
  \<^item> \<open>firebase_get url path\<close>: \<open>FirebaseApplication(url).get(path, None)\<close>; \<open>Inr None\<close>
    is the Python value \<open>None\<close>.
  \<^item> \<open>firebase_put url path key value\<close>: \<open>FirebaseApplication(url).put(path, key, value)\<close>.
\<close>

record env =
  py_float :: "string \<Rightarrow> pyfloat option"
  rng_permutation :: "nat \<Rightarrow> nat \<Rightarrow> nat list"
  read_csv :: "string \<Rightarrow> error + dataframe"
  tree_fit :: "pyfloat list list \<Rightarrow> nat list \<Rightarrow> pyfloat list \<Rightarrow> nat"
  firebase_get :: "string \<Rightarrow> string \<Rightarrow> error + json option"
  firebase_put :: "string \<Rightarrow> string \<Rightarrow> string \<Rightarrow> string \<Rightarrow> error + unit"

subsection \<open>LabelEncoder\<close>

text \<open>
  \<open>sklearn.preprocessing.LabelEncoder\<close> is imported by the notebook and is not part of it.
  It is modelled from the specification (section 4.1): the code of a label is its position
  among the distinct labels in ascending order.
\<close>

text \<open>Modelled from the spec: the \<open>LabelEncoding\<close>, the distinct labels in code order.\<close>

record label_encoder =
  classes :: "string list"

text \<open>Modelled from the spec: the position of a label in the encoding, if it has one.\<close>

fun index_of :: "'a \<Rightarrow> 'a list \<Rightarrow> nat option" where
  "index_of x [] = None"
| "index_of x (y # ys) = (if x = y then Some 0 else map_option Suc (index_of x ys))"

text \<open>Modelled from the spec: \<open>fit\<close> assigns each distinct label a unique integer code, in
  ascending lexical order of the distinct label strings.\<close>

definition le_fit :: "string list \<Rightarrow> label_encoder" where
  "le_fit labels = \<lparr>classes = sort (remdups labels)\<rparr>"

text \<open>Modelled from the spec: \<open>encode(label)\<close> returns the code or fails with \<open>UnknownLabel\<close>
  if the label was not present at fit time.\<close>

definition encode :: "label_encoder \<Rightarrow> string \<Rightarrow> error + nat" where
  "encode le l = (case index_of l (classes le) of None \<Rightarrow> Inl UnknownLabel | Some c \<Rightarrow> Inr c)"

text \<open>Modelled from the spec: \<open>decode(code)\<close> is the exact inverse and fails with
  \<open>InvalidCode\<close> for an out-of-range code.\<close>

definition decode :: "label_encoder \<Rightarrow> nat \<Rightarrow> error + string" where
  "decode le c = (if c < length (classes le) then Inr (classes le ! c) else Inl InvalidCode)"

text \<open>Modelled from the spec: \<open>le.transform(labels)\<close>, \<open>encode\<close> on every element of an
  array.\<close>

definition le_transform :: "label_encoder \<Rightarrow> string list \<Rightarrow> error + nat list" where
  "le_transform le labels = traverse (encode le) labels"

text \<open>Modelled from the spec: \<open>le.fit_transform(labels)\<close>, \<open>fit\<close> followed by the encoding of
  the same labels; the fitted encoder is the object \<open>le\<close> afterwards.\<close>

definition le_fit_transform :: "string list \<Rightarrow> error + label_encoder \<times> nat list" where
  "le_fit_transform labels =
     (let le = le_fit labels in
      case le_transform le labels of Inl e \<Rightarrow> Inl e | Inr codes \<Rightarrow> Inr (le, codes))"

text \<open>Modelled from the spec: \<open>le.inverse_transform(codes)\<close>, \<open>decode\<close> on every element of
  an array.\<close>

definition le_inverse_transform :: "label_encoder \<Rightarrow> nat list \<Rightarrow> error + string list" where
  "le_inverse_transform le codes = traverse (decode le) codes"

subsection \<open>DatasetSplitter\<close>

text \<open>
  \<open>sklearn.model_selection.train_test_split\<close> is imported by the notebook and is not part of
  it. It is modelled from the specification (section 4.2), with the seeded generator as the
  parameter \<open>permutation\<close>.
\<close>

text \<open>Modelled from the spec: the partition is computed via a seeded deterministic
  pseudorandom permutation of row indices; the first \<open>round(ratio * N)\<close> permuted indices go
  to the test set and the remainder to the training set. The result is (train indices, test
  indices).\<close>

definition split_indices ::
  "(nat \<Rightarrow> nat \<Rightarrow> nat list) \<Rightarrow> nat \<Rightarrow> real \<Rightarrow> nat \<Rightarrow> nat list \<times> nat list" where
  "split_indices permutation n ratio seed =
     (let p = permutation seed n;
          k = nat (round (ratio * real n))
      in (drop k p, take k p))"

text \<open>Modelled from the spec: \<open>train_test_split(X, y, test_size, random_state)\<close>, the rows of
  \<open>X\<close> and the entries of \<open>y\<close> at the training and at the test indices, as
  \<open>(X_train, X_test, y_train, y_test)\<close>.\<close>

definition train_test_split ::
  "(nat \<Rightarrow> nat \<Rightarrow> nat list) \<Rightarrow> 'a list \<Rightarrow> 'b list \<Rightarrow> real \<Rightarrow> nat
     \<Rightarrow> 'a list \<times> 'a list \<times> 'b list \<times> 'b list" where
  "train_test_split permutation X y test_size random_state =
     (let (train, test) = split_indices permutation (length X) test_size random_state
      in (map (\<lambda>i. X ! i) train, map (\<lambda>i. X ! i) test,
          map (\<lambda>i. y ! i) train, map (\<lambda>i. y ! i) test))"

subsection \<open>FeatureScaler\<close>

text \<open>
  \<open>sklearn.preprocessing.StandardScaler\<close> is imported by the notebook and is not part of it.
  It is modelled from the specification (sections 3 and 4.3).
\<close>

text \<open>Modelled from the spec: \<open>ScalerStats\<close>, a (mean, standard deviation) pair per feature,
  as the list of means and the list of divisors.\<close>

record scaler =
  scaler_mean :: "real list"
  scaler_scale :: "real list"

text \<open>Modelled from the spec: the mean of one column.\<close>

definition average :: "real list \<Rightarrow> real" where
  "average xs = sum_list xs / real (length xs)"

text \<open>Modelled from the spec: the population standard deviation of one column.\<close>

definition std :: "real list \<Rightarrow> real" where
  "std xs = sqrt (average (map (\<lambda>x. (x - average xs)\<^sup>2) xs))"

text \<open>Modelled from the spec: a feature with zero variance is handled explicitly rather than
  divided by zero; its divisor is 1, which leaves its training values centred.\<close>

definition handle_zeros :: "real \<Rightarrow> real" where
  "handle_zeros s = (if s = 0 then 1 else s)"

text \<open>Modelled from the spec: the columns of a non-empty matrix of rows.\<close>

definition columns_of :: "real list list \<Rightarrow> real list list" where
  "columns_of X = map (\<lambda>j. map (\<lambda>row. row ! j) X) [0..<length (hd X)]"

text \<open>Modelled from the spec: \<open>fit\<close> computes the column-wise mean and population standard
  deviation of the rows it is given. No rows at all is the empty dataset,
  \<open>DegenerateDataset\<close>.\<close>

definition scaler_fit :: "real list list \<Rightarrow> error + scaler" where
  "scaler_fit X =
     (if X = [] then Inl DegenerateDataset
      else Inr \<lparr>scaler_mean = map average (columns_of X),
                scaler_scale = map (\<lambda>c. handle_zeros (std c)) (columns_of X)\<rparr>)"

text \<open>Modelled from the spec: \<open>(x - mean) / stddev\<close> for one feature. The divisor is finite
  and positive, so IEEE arithmetic leaves an infinity or NaN as it is.\<close>

fun standardize :: "real \<Rightarrow> real \<Rightarrow> pyfloat \<Rightarrow> pyfloat" where
  "standardize m s (Finite x) = Finite ((x - m) / s)"
| "standardize m s PlusInf = PlusInf"
| "standardize m s MinusInf = MinusInf"
| "standardize m s NaN = NaN"

text \<open>Modelled from the spec: \<open>transform\<close> returns \<open>(x - mean) / stddev\<close> per feature, the
  i-th feature of a row with the i-th pair of statistics, and fails with
  \<open>DimensionMismatch\<close> if a row's feature count does not match the fitted statistics'
  feature count.\<close>

definition scaler_transform :: "scaler \<Rightarrow> pyfloat list list \<Rightarrow> error + pyfloat list list" where
  "scaler_transform sc X =
     (if list_all (\<lambda>row. length row = length (scaler_mean sc)) X
      then Inr (map (\<lambda>row. map (\<lambda>(v, m, s). standardize m s v)
                              (zip row (zip (scaler_mean sc) (scaler_scale sc)))) X)
      else Inl DimensionMismatch)"

text \<open>Modelled from the spec: \<open>scaler.fit_transform(X)\<close>, \<open>fit\<close> followed by \<open>transform\<close> of
  the same rows; the fitted scaler is the object \<open>scaler\<close> afterwards.\<close>

definition scaler_fit_transform :: "real list list \<Rightarrow> error + scaler \<times> pyfloat list list" where
  "scaler_fit_transform X =
     (case scaler_fit X of
        Inl e \<Rightarrow> Inl e
      | Inr sc \<Rightarrow>
          (case scaler_transform sc (map (map Finite) X) of
             Inl e \<Rightarrow> Inl e
           | Inr X' \<Rightarrow> Inr (sc, X')))"

subsection \<open>Evaluator\<close>

text \<open>
  \<open>sklearn.metrics.classification_report\<close> and \<open>accuracy_score\<close> are imported by the notebook
  and are not part of it. They are modelled from the specification (section 4.5), over exact
  real numbers. The confusion counts of a class are taken over the paired true and predicted
  codes.
\<close>

text \<open>Modelled from the spec: the true positives of class \<open>c\<close>.\<close>

definition TP :: "nat list \<Rightarrow> nat list \<Rightarrow> nat \<Rightarrow> nat" where
  "TP y_true y_pred c = length (filter (\<lambda>(t, p). t = c \<and> p = c) (zip y_true y_pred))"

text \<open>Modelled from the spec: the false positives of class \<open>c\<close>.\<close>

definition FP :: "nat list \<Rightarrow> nat list \<Rightarrow> nat \<Rightarrow> nat" where
  "FP y_true y_pred c = length (filter (\<lambda>(t, p). t \<noteq> c \<and> p = c) (zip y_true y_pred))"

text \<open>Modelled from the spec: the false negatives of class \<open>c\<close>.\<close>

definition FN :: "nat list \<Rightarrow> nat list \<Rightarrow> nat \<Rightarrow> nat" where
  "FN y_true y_pred c = length (filter (\<lambda>(t, p). t = c \<and> p \<noteq> c) (zip y_true y_pred))"

text \<open>Modelled from the spec: the true negatives of class \<open>c\<close>.\<close>

definition TN :: "nat list \<Rightarrow> nat list \<Rightarrow> nat \<Rightarrow> nat" where
  "TN y_true y_pred c = length (filter (\<lambda>(t, p). t \<noteq> c \<and> p \<noteq> c) (zip y_true y_pred))"

text \<open>Modelled from the spec: \<open>precision = TP / (TP + FP)\<close>, 0 if the denominator is 0.\<close>

definition precision_of :: "nat \<Rightarrow> nat \<Rightarrow> real" where
  "precision_of tp fp = (if tp + fp = 0 then 0 else real tp / real (tp + fp))"

text \<open>Modelled from the spec: \<open>recall = TP / (TP + FN)\<close>, 0 if the denominator is 0.\<close>

definition recall_of :: "nat \<Rightarrow> nat \<Rightarrow> real" where
  "recall_of tp fn = (if tp + fn = 0 then 0 else real tp / real (tp + fn))"

text \<open>Modelled from the spec: \<open>f1 = 2 * precision * recall / (precision + recall)\<close>, 0 if
  both are 0.\<close>

definition f1_of :: "real \<Rightarrow> real \<Rightarrow> real" where
  "f1_of p r = (if p + r = 0 then 0 else 2 * p * r / (p + r))"

text \<open>Modelled from the spec: the report of one class; \<open>support\<close> is the count of true
  instances of the class.\<close>

definition class_report :: "nat list \<Rightarrow> nat list \<Rightarrow> nat \<Rightarrow> class_metrics" where
  "class_report y_true y_pred c =
     (let p = precision_of (TP y_true y_pred c) (FP y_true y_pred c);
          r = recall_of (TP y_true y_pred c) (FN y_true y_pred c)
      in \<lparr>precision = p, recall = r, f1 = f1_of p r,
          support = length (filter (\<lambda>t. t = c) y_true)\<rparr>)"

text \<open>Modelled from the spec: \<open>accuracy\<close> is correct / total; with no samples it is 0 here.\<close>

definition accuracy_score :: "nat list \<Rightarrow> nat list \<Rightarrow> real" where
  "accuracy_score y_true y_pred =
     (if y_true = [] then 0
      else real (length (filter (\<lambda>(t, p). t = p) (zip y_true y_pred))) / real (length y_true))"

text \<open>Modelled from the spec: the macro average, the unweighted mean of a metric over the
  classes.\<close>

definition macro :: "(class_metrics \<Rightarrow> real) \<Rightarrow> class_metrics list \<Rightarrow> real" where
  "macro m rows = (if rows = [] then 0 else sum_list (map m rows) / real (length rows))"

text \<open>Modelled from the spec: the weighted average, the mean of a metric weighted by
  support.\<close>

definition weighted :: "(class_metrics \<Rightarrow> real) \<Rightarrow> class_metrics list \<Rightarrow> real" where
  "weighted m rows =
     (if sum_list (map support rows) = 0 then 0
      else sum_list (map (\<lambda>r. real (support r) * m r) rows) / real (sum_list (map support rows)))"

text \<open>Modelled from the spec: the \<open>EvaluationReport\<close>, one row per class code, labelled by
  the decoded name, with the accuracy and the two averages.\<close>

definition classification_report :: "nat list \<Rightarrow> nat list \<Rightarrow> string list \<Rightarrow> report" where
  "classification_report y_true y_pred target_names =
     (let rows = map (class_report y_true y_pred) [0..<length target_names];
          total = sum_list (map support rows)
      in \<lparr>per_class = zip target_names rows,
          accuracy = accuracy_score y_true y_pred,
          macro_avg = \<lparr>precision = macro precision rows, recall = macro recall rows,
                       f1 = macro f1 rows, support = total\<rparr>,
          weighted_avg = \<lparr>precision = weighted precision rows, recall = weighted recall rows,
                          f1 = weighted f1 rows, support = total\<rparr>\<rparr>)"

subsection \<open>preprocess_data\<close>

text \<open>
  Lines 56 to 62 of the notebook: the label column is encoded, stored as the column
  \<open>label_encoded\<close>, both label columns are dropped to give the feature table \<open>X\<close>, and the
  rows are split with \<open>test_size=0.3\<close> and \<open>random_state=42\<close>. The recorded table has string
  labels; a numeric label column is reported as \<open>FormatError\<close>. The result is the unscaled
  \<open>(X_train, X_test, y_train, y_test, le)\<close>.
\<close>

definition encode_and_split ::
  "env \<Rightarrow> dataframe
     \<Rightarrow> error + real list list \<times> real list list \<times> nat list \<times> nat list \<times> label_encoder" where
  "encode_and_split env data =
     (case get_column data ''label'' of
        Inl e \<Rightarrow> Inl e
      | Inr (Num _) \<Rightarrow> Inl FormatError
      | Inr (Str labels) \<Rightarrow>
          (case le_fit_transform labels of
             Inl e \<Rightarrow> Inl e
           | Inr (le, codes) \<Rightarrow>
               (let data1 = set_column data ''label_encoded'' (Num (map real codes));
                    y = codes
                in case drop_columns [''label'', ''label_encoded''] data1 of
                     Inl e \<Rightarrow> Inl e
                   | Inr X \<Rightarrow>
                       (case to_rows (length labels) X of
                          Inl e \<Rightarrow> Inl e
                        | Inr rows \<Rightarrow>
                            (let (X_train, X_test, y_train, y_test) =
                                   train_test_split (rng_permutation env) rows y (3 / 10) 42
                             in Inr (X_train, X_test, y_train, y_test, le))))))"

text \<open>
  The whole function: the table is read, its first row printed, the rows encoded and split,
  the scaler fitted on \<open>X_train\<close> and applied to \<open>X_train\<close> and \<open>X_test\<close>.
\<close>

definition preprocess_data ::
  "env \<Rightarrow> string \<Rightarrow> world
     \<Rightarrow> (error + pyfloat list list \<times> pyfloat list list \<times> nat list \<times> nat list
                  \<times> label_encoder \<times> scaler) \<times> world" where
  "preprocess_data env filepath w =
     (case read_csv env filepath of
        Inl e \<Rightarrow> (Inl e, w)
      | Inr data \<Rightarrow>
          (let w1 = print (Print ''First row of data:'') w;
               w2 = print (Print_head (head 1 data)) w1
           in case encode_and_split env data of
                Inl e \<Rightarrow> (Inl e, w2)
              | Inr (X_train, X_test, y_train, y_test, le) \<Rightarrow>
                  (case scaler_fit_transform X_train of
                     Inl e \<Rightarrow> (Inl e, w2)
                   | Inr (scaler, X_train_scaled) \<Rightarrow>
                       (case scaler_transform scaler (map (map Finite) X_test) of
                          Inl e \<Rightarrow> (Inl e, w2)
                        | Inr X_test_scaled \<Rightarrow>
                            (Inr (X_train_scaled, X_test_scaled, y_train, y_test, le, scaler),
                             w2)))))"

text \<open>The sixth component of what \<open>preprocess_data\<close> returns, or the exception it raised.\<close>

definition fitted_scaler ::
  "(error + pyfloat list list \<times> pyfloat list list \<times> nat list \<times> nat list
        \<times> label_encoder \<times> scaler) \<times> world \<Rightarrow> error + scaler" where
  "fitted_scaler r =
     (case fst r of
        Inl e \<Rightarrow> Inl e
      | Inr (X_train, X_test, y_train, y_test, le, scaler) \<Rightarrow> Inr scaler)"

subsection \<open>train_and_evaluate_model\<close>

definition train_and_evaluate_model ::
  "env \<Rightarrow> pyfloat list list \<Rightarrow> pyfloat list list \<Rightarrow> nat list \<Rightarrow> nat list \<Rightarrow> label_encoder
     \<Rightarrow> world \<Rightarrow> (pyfloat list \<Rightarrow> nat) \<times> world" where
  "train_and_evaluate_model env X_train X_test y_train y_test le w =
     (let clf = tree_fit env X_train y_train;
          y_pred = map clf X_test;
          w1 = print (Print ''Classification Report:'') w;
          w2 = print (Print_report (classification_report y_test y_pred (classes le))) w1;
          acc = accuracy_score y_test y_pred;
          w3 = print (Print_accuracy (acc * 100)) w2
      in (clf, w3))"

subsection \<open>get_valid_input\<close>

text \<open>
  The loop \<open>while True\<close> has no bound on its attempts and need not return: the function is
  partial, \<open>None\<close> is the run that never returns. \<open>EOFError\<close> from \<open>input\<close> is not a
  \<open>ValueError\<close> and leaves the loop as an exception.
\<close>

partial_function (option) get_valid_input ::
  "env \<Rightarrow> string \<Rightarrow> int \<Rightarrow> int \<Rightarrow> world \<Rightarrow> ((error + pyfloat) \<times> world) option" where
  "get_valid_input env prompt min_val max_val w =
     (case input prompt w of
        (Inl e, w1) \<Rightarrow> Some (Inl e, w1)
      | (Inr line, w1) \<Rightarrow>
          (case py_float env line of
             Some v \<Rightarrow>
               if py_le (Finite (of_int min_val)) v \<and> py_le v (Finite (of_int max_val))
               then Some (Inr v, w1)
               else get_valid_input env prompt min_val max_val
                      (print (Print_range min_val max_val) w1)
           | None \<Rightarrow>
               get_valid_input env prompt min_val max_val
                 (print (Print ''Invalid input. Please enter a numeric value.'') w1)))"

text \<open>
  Vocabulary for the properties of the loop: whether one line ends it, and the message a
  line that does not end it is answered with.
\<close>

definition accepted :: "env \<Rightarrow> int \<Rightarrow> int \<Rightarrow> string \<Rightarrow> bool" where
  "accepted env min_val max_val line =
     (case py_float env line of
        None \<Rightarrow> False
      | Some v \<Rightarrow> py_le (Finite (of_int min_val)) v \<and> py_le v (Finite (of_int max_val)))"

definition rejection :: "env \<Rightarrow> int \<Rightarrow> int \<Rightarrow> string \<Rightarrow> event" where
  "rejection env min_val max_val line =
     (case py_float env line of
        None \<Rightarrow> Print ''Invalid input. Please enter a numeric value.''
      | Some v \<Rightarrow> Print_range min_val max_val)"

text \<open>
  What one call of \<open>get_valid_input\<close> writes when it rejects the lines \<open>rejected\<close> and then
  accepts a line: the prompt and the message for each rejected line, and the prompt that the
  accepted line answers.
\<close>

definition attempts :: "env \<Rightarrow> string \<Rightarrow> int \<Rightarrow> int \<Rightarrow> string list \<Rightarrow> event list" where
  "attempts env prompt min_val max_val rejected =
     concat (map (\<lambda>l. [Prompt prompt, rejection env min_val max_val l]) rejected)
       @ [Prompt prompt]"

subsection \<open>predict_and_send_to_firebase\<close>

text \<open>The dictionary \<open>input_ranges\<close>, in insertion order, which is the order of \<open>items()\<close>.
  The degree sign of the second key is written as its two UTF-8 bytes.\<close>

definition input_ranges :: "(string \<times> int \<times> int) list" where
  "input_ranges =
     [(''Air Humidity (%)'', (10, 90)),
      (''Air Temperature ('' @ [CHR 0xC2, CHR 0xB0] @ ''C)'', (10, 45)),
      (''Soil pH'', (4, 9)),
      (''Rainfall (mm)'', (0, 300))]"

text \<open>
  The list comprehension
  \<open>[get_valid_input(f"Enter {key}: ", *range_) for key, range_ in input_ranges.items()]\<close>
  over a dictionary given as its list of items.
\<close>

fun gather_inputs ::
  "env \<Rightarrow> (string \<times> int \<times> int) list \<Rightarrow> world \<Rightarrow> ((error + pyfloat list) \<times> world) option" where
  "gather_inputs env [] w = Some (Inr [], w)"
| "gather_inputs env ((key, min_val, max_val) # items) w =
     (case get_valid_input env (''Enter '' @ key @ '': '') min_val max_val w of
        None \<Rightarrow> None
      | Some (Inl e, w1) \<Rightarrow> Some (Inl e, w1)
      | Some (Inr v, w1) \<Rightarrow>
          (case gather_inputs env items w1 of
             None \<Rightarrow> None
           | Some (Inl e, w2) \<Rightarrow> Some (Inl e, w2)
           | Some (Inr vs, w2) \<Rightarrow> Some (Inr (v # vs), w2)))"

definition predict_and_send_to_firebase ::
  "env \<Rightarrow> (pyfloat list \<Rightarrow> nat) \<Rightarrow> scaler \<Rightarrow> label_encoder \<Rightarrow> string \<Rightarrow> world
     \<Rightarrow> ((error + unit) \<times> world) option" where
  "predict_and_send_to_firebase env clf scaler le firebase_url w =
     (case gather_inputs env input_ranges w of
        None \<Rightarrow> None
      | Some (Inl e, w1) \<Rightarrow> Some (Inl e, w1)
      | Some (Inr inputs, w1) \<Rightarrow>
          (case scaler_transform scaler [inputs] of
             Inl e \<Rightarrow> Some (Inl e, w1)
           | Inr predict_input_scaled \<Rightarrow>
               (let predicted_label_encoded = map clf predict_input_scaled
                in case le_inverse_transform le predicted_label_encoded of
                     Inl e \<Rightarrow> Some (Inl e, w1)
                   | Inr [] \<Rightarrow> Some (Inl IndexError, w1)
                   | Inr (predicted_crop # _) \<Rightarrow>
                       (let w2 = print (Print_predicted predicted_crop) w1
                        in case firebase_put env firebase_url ''/croppredicted'' ''crop''
                                  predicted_crop of
                             Inr _ \<Rightarrow>
                               Some (Inr (),
                                     print (Print ''Prediction successfully sent to Firebase!'') w2)
                           | Inl e \<Rightarrow> Some (Inr (), print (Print_firebase_error e) w2)))))"

subsection \<open>main\<close>

definition main :: "env \<Rightarrow> world \<Rightarrow> ((error + unit) \<times> world) option" where
  "main env w =
     (let filepath = ''cpdata1.csv'';
          firebase_url = ''https://cropit-eb156.firebaseio.com/''
      in case preprocess_data env filepath w of
           (Inl e, w1) \<Rightarrow> Some (Inl e, w1)
         | (Inr (X_train, X_test, y_train, y_test, le, scaler), w1) \<Rightarrow>
             (case train_and_evaluate_model env X_train X_test y_train y_test le w1 of
                (clf, w2) \<Rightarrow>
                  (case firebase_get env firebase_url ''/Realtime'' of
                     Inl e \<Rightarrow> Some (Inl e, w2)
                   | Inr tp \<Rightarrow>
                       if tp \<noteq> None
                       then predict_and_send_to_firebase env clf scaler le firebase_url w2
                       else Some (Inr (),
                                  print (Print ''Failed to retrieve data from Firebase.'') w2))))"

subsection \<open>Sample collaborators\<close>

text \<open>
  Concrete collaborators, for running the functions on concrete inputs. \<open>sample_float\<close> is
  what \<open>float\<close> returns on the strings \<open>nan\<close>, \<open>inf\<close>, \<open>-inf\<close> and on a string of decimal
  digits; every other string is \<open>None\<close> here. \<open>sample_permutation\<close> rotates the indices by
  the seed. \<open>sample_table\<close> has four rows under the header of the recorded run.
\<close>

definition sample_float :: "string \<Rightarrow> pyfloat option" where
  "sample_float s =
     (if s = ''nan'' then Some NaN
      else if s = ''inf'' then Some PlusInf
      else if s = ''-inf'' then Some MinusInf
      else if s \<noteq> [] \<and> list_all (\<lambda>c. CHR ''0'' \<le> c \<and> c \<le> CHR ''9'') s
      then Some (Finite (real (foldl (\<lambda>a c. 10 * a + (of_char c - 48)) 0 s)))
      else None)"

definition sample_permutation :: "nat \<Rightarrow> nat \<Rightarrow> nat list" where
  "sample_permutation seed n = rotate seed [0..<n]"

definition sample_table :: dataframe where
  "sample_table =
     [(''temperature'', Num [20, 30, 24, 26]),
      (''humidity'', Num [80, 60, 65, 75]),
      (''ph'', Num [6, 7, 5, 7]),
      (''rainfall'', Num [200, 100, 50, 250]),
      (''label'', Str [''rice'', ''maize'', ''rice'', ''maize''])]"

definition sample_env :: env where
  "sample_env =
     \<lparr>py_float = sample_float,
      rng_permutation = sample_permutation,
      read_csv = (\<lambda>filepath. Inr sample_table),
      tree_fit = (\<lambda>X y row. 0),
      firebase_get = (\<lambda>url path. Inr (Some (JStr ''''))),
      firebase_put = (\<lambda>url path key v. Inl (RemoteUnavailable ''timeout''))\<rparr>"

text \<open>A fitted scaler and a fitted encoder for four features and two crops.\<close>

definition sample_scaler :: scaler where
  "sample_scaler = \<lparr>scaler_mean = [25, 70, 6, 150], scaler_scale = [5, 10, 1, 50]\<rparr>"

definition sample_encoder :: label_encoder where
  "sample_encoder = le_fit [''rice'', ''maize'', ''rice'']"

text \<open>Standard input holding the six lines \<open>80\<close>, \<open>abc\<close>, \<open>20\<close>, \<open>7\<close>, \<open>301\<close>, \<open>200\<close>.\<close>

definition sample_world :: world where
  "sample_world =
     \<lparr>stdin = Some ''80'' ## Some ''abc'' ## Some ''20'' ## Some ''7'' ## Some ''301''
                ## Some ''200'' ## sconst None,
      stdout = []\<rparr>"

text \<open>A second table: the rows of \<open>sample_table\<close>, except for the third row and its label.\<close>

definition other_table :: dataframe where
  "other_table =
     [(''temperature'', Num [20, 30, 40, 26]),
      (''humidity'', Num [80, 60, 10, 75]),
      (''ph'', Num [6, 7, 9, 7]),
      (''rainfall'', Num [200, 100, 0, 250]),
      (''label'', Str [''rice'', ''maize'', ''wheat'', ''maize''])]"

text \<open>
  True and predicted codes of twenty test samples of two classes: eight of class 0 predicted
  0, one of class 0 predicted 1, two of class 1 predicted 0, nine of class 1 predicted 1.
\<close>

definition sample_true :: "nat list" where
  "sample_true = [0, 0, 0, 0, 0, 0, 0, 0, 0, 1, 1, 1, 1, 1, 1, 1, 1, 1, 1, 1]"

definition sample_pred :: "nat list" where
  "sample_pred = [0, 0, 0, 0, 0, 0, 0, 0, 1, 0, 0, 1, 1, 1, 1, 1, 1, 1, 1, 1]"

text \<open>
  The output of \<open>print(data.head(1))\<close> that the notebook recorded for \<open>cpdata1.csv\<close>: the
  header of the table and its first row.
\<close>

definition recorded_head :: dataframe where
  "recorded_head =
     [(''temperature'', Num [20.879744]),
      (''humidity'', Num [82.002744]),
      (''ph'', Num [6.502985]),
      (''rainfall'', Num [202.935536]),
      (''label'', Str [''rice''])]"

section \<open>Properties\<close>

subsection \<open>The input loop\<close>

lemma py_le_between:
  "py_le (Finite a) v \<Longrightarrow> py_le v (Finite b) \<Longrightarrow> \<exists>x. v = Finite x \<and> a \<le> x \<and> x \<le> b"
  by (cases v) auto

lemma get_valid_input_returns_in_range:
  assumes "get_valid_input env prompt min_val max_val w = Some (Inr v, w')"
  shows "\<exists>x. v = Finite x \<and> real_of_int min_val \<le> x \<and> x \<le> real_of_int max_val"
proof -
  have "\<forall>v w'. r = (Inr v, w') \<longrightarrow>
          (\<exists>x. v = Finite x \<and> real_of_int min_val \<le> x \<and> x \<le> real_of_int max_val)"
    if "get_valid_input env prompt min_val max_val w = Some r" for r
  proof (rule get_valid_input.raw_induct
      [where P = "\<lambda>env prompt lo hi w r. \<forall>v w'. r = (Inr v, w') \<longrightarrow>
          (\<exists>x. v = Finite x \<and> real_of_int lo \<le> x \<and> x \<le> real_of_int hi)", OF _ that])
    fix self env prompt lo hi w r
    assume IH: "\<And>env' prompt' lo' hi' w0 y. self env' prompt' lo' hi' w0 = Some y \<Longrightarrow>
          \<forall>v w'. y = (Inr v, w') \<longrightarrow>
            (\<exists>x. v = Finite x \<and> real_of_int lo' \<le> x \<and> x \<le> real_of_int hi')"
      and step: "(case input prompt w of
        (Inl e, w1) \<Rightarrow> Some (Inl e, w1)
      | (Inr line, w1) \<Rightarrow>
          (case py_float env line of
             Some v \<Rightarrow>
               if py_le (Finite (of_int lo)) v \<and> py_le v (Finite (of_int hi))
               then Some (Inr v, w1)
               else self env prompt lo hi (print (Print_range lo hi) w1)
           | None \<Rightarrow>
               self env prompt lo hi
                 (print (Print ''Invalid input. Please enter a numeric value.'') w1))) = Some r"
    show "\<forall>v w'. r = (Inr v, w') \<longrightarrow>
            (\<exists>x. v = Finite x \<and> real_of_int lo \<le> x \<and> x \<le> real_of_int hi)"
      using step IH
      by (auto split: prod.splits sum.splits option.splits if_splits dest: py_le_between)
  qed
  with assms show ?thesis by blast
qed

lemma input_line:
  "shd (stdin w) = Some line \<Longrightarrow>
   input prompt w = (Inr line, \<lparr>stdin = stl (stdin w), stdout = stdout w @ [Prompt prompt]\<rparr>)"
  by (simp add: input_def print_def)

lemma input_eof:
  "shd (stdin w) = None \<Longrightarrow>
   input prompt w = (Inl EOFError, \<lparr>stdin = stdin w, stdout = stdout w @ [Prompt prompt]\<rparr>)"
  by (simp add: input_def print_def)

lemma get_valid_input_accept:
  assumes "shd (stdin w) = Some line" and "accepted env min_val max_val line"
  shows "\<exists>v. py_float env line = Some v \<and>
           get_valid_input env prompt min_val max_val w =
             Some (Inr v, \<lparr>stdin = stl (stdin w), stdout = stdout w @ [Prompt prompt]\<rparr>)"
  using assms
  by (subst get_valid_input.simps)
     (auto simp: input_line accepted_def split: option.splits)

lemma get_valid_input_reject:
  assumes "shd (stdin w) = Some line" and "\<not> accepted env min_val max_val line"
  shows "get_valid_input env prompt min_val max_val w =
         get_valid_input env prompt min_val max_val
           \<lparr>stdin = stl (stdin w),
            stdout = stdout w @ [Prompt prompt, rejection env min_val max_val line]\<rparr>"
  using assms
  by (subst get_valid_input.simps)
     (auto simp: input_line accepted_def rejection_def print_def split: option.splits)

lemma get_valid_input_eof:
  assumes "shd (stdin w) = None"
  shows "get_valid_input env prompt min_val max_val w =
           Some (Inl EOFError, \<lparr>stdin = stdin w, stdout = stdout w @ [Prompt prompt]\<rparr>)"
  using assms by (subst get_valid_input.simps) (simp add: input_eof)

lemma get_valid_input_first_accepted:
  assumes "stdin w = map Some rejected @- Some good ## rest"
    and "\<forall>l \<in> set rejected. \<not> accepted env min_val max_val l"
    and "accepted env min_val max_val good"
  shows "\<exists>v. py_float env good = Some v \<and>
          get_valid_input env prompt min_val max_val w =
           Some (Inr v,
                 \<lparr>stdin = rest,
                  stdout = stdout w
                    @ concat (map (\<lambda>l. [Prompt prompt, rejection env min_val max_val l]) rejected)
                    @ [Prompt prompt]\<rparr>)"
  using assms
proof (induction rejected arbitrary: w)
  case Nil
  then show ?case
    using get_valid_input_accept [of w good env min_val max_val prompt] by simp
next
  case (Cons l ls)
  let ?w1 = "\<lparr>stdin = stl (stdin w),
            stdout = stdout w @ [Prompt prompt, rejection env min_val max_val l]\<rparr>"
  have "get_valid_input env prompt min_val max_val w =
        get_valid_input env prompt min_val max_val ?w1"
    using Cons.prems by (intro get_valid_input_reject) simp_all
  moreover have "stdin ?w1 = map Some ls @- Some good ## rest"
    using Cons.prems by simp
  ultimately show ?case
    using Cons.IH [of ?w1] Cons.prems by simp
qed

text \<open>
  The two other runs of the loop: at end of file it raises (\<open>get_valid_input_eof\<close> above),
  and on an endless stream of lines none of which is accepted it never returns.
\<close>

lemma get_valid_input_never_returns:
  assumes "\<forall>n. \<exists>l. stdin w !! n = Some l \<and> \<not> accepted env min_val max_val l"
  shows "get_valid_input env prompt min_val max_val w = None"
proof (rule ccontr)
  assume "get_valid_input env prompt min_val max_val w \<noteq> None"
  then obtain r where r: "get_valid_input env prompt min_val max_val w = Some r"
    by blast
  have "(\<forall>n. \<exists>l. stdin w !! n = Some l \<and> \<not> accepted env min_val max_val l) \<longrightarrow> False"
  proof (rule get_valid_input.raw_induct
      [where P = "\<lambda>env prompt lo hi w r.
          (\<forall>n. \<exists>l. stdin w !! n = Some l \<and> \<not> accepted env lo hi l) \<longrightarrow> False", OF _ r])
    fix self env prompt lo hi w r
    assume IH: "\<And>env' prompt' lo' hi' w0 y. self env' prompt' lo' hi' w0 = Some y \<Longrightarrow>
          (\<forall>n. \<exists>l. stdin w0 !! n = Some l \<and> \<not> accepted env' lo' hi' l) \<longrightarrow> False"
      and step: "(case input prompt w of
        (Inl e, w1) \<Rightarrow> Some (Inl e, w1)
      | (Inr line, w1) \<Rightarrow>
          (case py_float env line of
             Some v \<Rightarrow>
               if py_le (Finite (of_int lo)) v \<and> py_le v (Finite (of_int hi))
               then Some (Inr v, w1)
               else self env prompt lo hi (print (Print_range lo hi) w1)
           | None \<Rightarrow>
               self env prompt lo hi
                 (print (Print ''Invalid input. Please enter a numeric value.'') w1))) = Some r"
    show "(\<forall>n. \<exists>l. stdin w !! n = Some l \<and> \<not> accepted env lo hi l) \<longrightarrow> False"
    proof
      assume all: "\<forall>n. \<exists>l. stdin w !! n = Some l \<and> \<not> accepted env lo hi l"
      then obtain l where l: "shd (stdin w) = Some l" "\<not> accepted env lo hi l"
        using spec [OF all, of 0] by auto
      let ?w1 = "\<lparr>stdin = stl (stdin w), stdout = stdout w @ [Prompt prompt]\<rparr>"
      have later: "\<forall>n. \<exists>l. stl (stdin w) !! n = Some l \<and> \<not> accepted env lo hi l"
        using all by (metis snth.simps(2))
      from step l obtain ev where "self env prompt lo hi (print ev ?w1) = Some r"
        by (auto simp: input_line accepted_def split: option.splits if_splits)
      moreover have "stdin (print ev ?w1) = stl (stdin w)"
        by (simp add: print_def)
      ultimately show False
        using IH [of env prompt lo hi "print ev ?w1" r] later by simp
    qed
  qed
  with assms show False by blast
qed

lemma sample_float_simps:
  "py_float sample_env ''abc'' = None"
  "py_float sample_env ''150'' = Some (Finite 150)"
  "py_float sample_env ''45'' = Some (Finite 45)"
  "py_float sample_env ''nan'' = Some NaN"
  "py_float sample_env ''inf'' = Some PlusInf"
  "py_float sample_env ''-inf'' = Some MinusInf"
  by (simp_all add: sample_env_def sample_float_def)

text \<open>
  Claim C6. For every range and every input stream, \<open>get_valid_input\<close> returns the first line
  that parses as a number \<open>v\<close> with \<open>min_val <= v <= max_val\<close>: when the stream starts with the
  lines \<open>rejected\<close>, none of which is accepted, followed by an accepted line \<open>good\<close>, the
  function returns the value of \<open>good\<close>, has read exactly these lines, and has answered each
  rejected line with its message and a new prompt. In particular, for the range (10, 90) and
  the lines \<open>abc\<close>, \<open>150\<close>, \<open>45\<close>, where \<open>float\<close> raises on the first and returns 150.0 and
  45.0 on the others, it rejects the first two and returns exactly 45.0 on the third attempt.
\<close>

theorem get_valid_input_first_in_range:
  "(stdin w = map Some rejected @- Some good ## rest \<and>
    (\<forall>l \<in> set rejected. \<not> accepted env min_val max_val l) \<and>
    accepted env min_val max_val good \<longrightarrow>
      (\<exists>v. py_float env good = Some v \<and>
            py_le (Finite (of_int min_val)) v \<and> py_le v (Finite (of_int max_val)) \<and>
            get_valid_input env prompt min_val max_val w =
              Some (Inr v,
                    \<lparr>stdin = rest,
                     stdout = stdout w
                       @ concat (map (\<lambda>l. [Prompt prompt, rejection env min_val max_val l])
                                     rejected)
                       @ [Prompt prompt]\<rparr>)))
   \<and>
   (stdin w = Some ''abc'' ## Some ''150'' ## Some ''45'' ## rest \<and>
    py_float env ''abc'' = None \<and>
    py_float env ''150'' = Some (Finite 150) \<and>
    py_float env ''45'' = Some (Finite 45) \<longrightarrow>
      get_valid_input env prompt 10 90 w =
        Some (Inr (Finite 45),
              \<lparr>stdin = rest,
               stdout = stdout w
                 @ [Prompt prompt, Print ''Invalid input. Please enter a numeric value.'',
                    Prompt prompt, Print_range 10 90,
                    Prompt prompt]\<rparr>))"
proof (intro conjI impI)
  assume a: "stdin w = map Some rejected @- Some good ## rest \<and>
    (\<forall>l \<in> set rejected. \<not> accepted env min_val max_val l) \<and>
    accepted env min_val max_val good"
  then obtain v where v: "py_float env good = Some v"
    and r: "get_valid_input env prompt min_val max_val w =
              Some (Inr v,
                    \<lparr>stdin = rest,
                     stdout = stdout w
                       @ concat (map (\<lambda>l. [Prompt prompt, rejection env min_val max_val l])
                                     rejected)
                       @ [Prompt prompt]\<rparr>)"
    using get_valid_input_first_accepted [of w rejected good rest env min_val max_val prompt]
    by blast
  from a v have "py_le (Finite (of_int min_val)) v \<and> py_le v (Finite (of_int max_val))"
    by (simp add: accepted_def)
  with v r show "\<exists>v. py_float env good = Some v \<and>
            py_le (Finite (of_int min_val)) v \<and> py_le v (Finite (of_int max_val)) \<and>
            get_valid_input env prompt min_val max_val w =
              Some (Inr v,
                    \<lparr>stdin = rest,
                     stdout = stdout w
                       @ concat (map (\<lambda>l. [Prompt prompt, rejection env min_val max_val l])
                                     rejected)
                       @ [Prompt prompt]\<rparr>)"
    by blast
next
  assume a: "stdin w = Some ''abc'' ## Some ''150'' ## Some ''45'' ## rest \<and>
    py_float env ''abc'' = None \<and>
    py_float env ''150'' = Some (Finite 150) \<and>
    py_float env ''45'' = Some (Finite 45)"
  then have "stdin w = map Some [''abc'', ''150''] @- Some ''45'' ## rest"
    and "\<forall>l \<in> set [''abc'', ''150'']. \<not> accepted env 10 90 l"
    and "accepted env 10 90 ''45''"
    by (simp_all add: accepted_def)
  from get_valid_input_first_accepted [OF this, of prompt] a
  show "get_valid_input env prompt 10 90 w =
        Some (Inr (Finite 45),
              \<lparr>stdin = rest,
               stdout = stdout w
                 @ [Prompt prompt, Print ''Invalid input. Please enter a numeric value.'',
                    Prompt prompt, Print_range 10 90,
                    Prompt prompt]\<rparr>)"
    by (simp add: rejection_def)
qed

text \<open>The run of claim C6 on the sample collaborators.\<close>

theorem get_valid_input_first_in_range_witness:
  "get_valid_input sample_env ''Enter Air Humidity (%): '' 10 90
     \<lparr>stdin = Some ''abc'' ## Some ''150'' ## Some ''45'' ## sconst None, stdout = []\<rparr> =
   Some (Inr (Finite 45),
         \<lparr>stdin = sconst None,
          stdout = [Prompt ''Enter Air Humidity (%): '',
                    Print ''Invalid input. Please enter a numeric value.'',
                    Prompt ''Enter Air Humidity (%): '', Print_range 10 90,
                    Prompt ''Enter Air Humidity (%): '']\<rparr>)
   \<and> (\<exists>v. py_float sample_env ''45'' = Some v \<and>
          get_valid_input sample_env ''Enter Air Humidity (%): '' 10 90
            \<lparr>stdin = map Some [''abc'', ''150''] @- Some ''45'' ## sconst None, stdout = []\<rparr> =
          Some (Inr v,
                \<lparr>stdin = sconst None,
                 stdout = [Prompt ''Enter Air Humidity (%): '',
                    rejection sample_env 10 90 ''abc'',
                    Prompt ''Enter Air Humidity (%): '', rejection sample_env 10 90 ''150'',
                    Prompt ''Enter Air Humidity (%): '']\<rparr>))"
  using get_valid_input_first_in_range
    [of "\<lparr>stdin = Some ''abc'' ## Some ''150'' ## Some ''45'' ## sconst None, stdout = []\<rparr>"
        "[''abc'', ''150'']" "''45''" "sconst None" sample_env 10 90 "''Enter Air Humidity (%): ''"]
  by (simp add: sample_float_simps accepted_def rejection_def)

text \<open>
  Claim C9. Every value \<open>get_valid_input\<close> returns is finite and lies between \<open>min_val\<close> and
  \<open>max_val\<close>; a line that \<open>float\<close> parses to NaN or to an infinity fails the chained
  comparison, is answered with the range message, and the loop prompts again.
\<close>

theorem get_valid_input_finite:
  "(get_valid_input env prompt min_val max_val w = Some (Inr v, w') \<longrightarrow>
      (\<exists>x. v = Finite x \<and> real_of_int min_val \<le> x \<and> x \<le> real_of_int max_val))
   \<and>
   (shd (stdin w) = Some line \<and> py_float env line \<in> {Some NaN, Some PlusInf, Some MinusInf} \<longrightarrow>
      get_valid_input env prompt min_val max_val w =
      get_valid_input env prompt min_val max_val
        \<lparr>stdin = stl (stdin w),
         stdout = stdout w @ [Prompt prompt, Print_range min_val max_val]\<rparr>)"
proof (intro conjI impI)
  assume "get_valid_input env prompt min_val max_val w = Some (Inr v, w')"
  then show "\<exists>x. v = Finite x \<and> real_of_int min_val \<le> x \<and> x \<le> real_of_int max_val"
    by (rule get_valid_input_returns_in_range)
next
  assume a: "shd (stdin w) = Some line \<and>
    py_float env line \<in> {Some NaN, Some PlusInf, Some MinusInf}"
  then have "\<not> accepted env min_val max_val line"
    and "rejection env min_val max_val line = Print_range min_val max_val"
    by (auto simp: accepted_def rejection_def)
  with a get_valid_input_reject [of w line env min_val max_val prompt]
  show "get_valid_input env prompt min_val max_val w =
      get_valid_input env prompt min_val max_val
        \<lparr>stdin = stl (stdin w),
         stdout = stdout w @ [Prompt prompt, Print_range min_val max_val]\<rparr>"
    by simp
qed

text \<open>The run of claim C9 on the lines \<open>nan\<close>, \<open>inf\<close>, \<open>-inf\<close>, \<open>7\<close>.\<close>

theorem get_valid_input_finite_witness:
  "get_valid_input sample_env ''Enter Soil pH: '' 4 9
     \<lparr>stdin = Some ''nan'' ## Some ''inf'' ## Some ''-inf'' ## Some ''7'' ## sconst None,
      stdout = []\<rparr> =
   Some (Inr (Finite 7),
         \<lparr>stdin = sconst None,
          stdout = [Prompt ''Enter Soil pH: '', Print_range 4 9,
                    Prompt ''Enter Soil pH: '', Print_range 4 9,
                    Prompt ''Enter Soil pH: '', Print_range 4 9,
                    Prompt ''Enter Soil pH: '']\<rparr>)
   \<and> (\<exists>x. Finite 7 = Finite x \<and> real_of_int 4 \<le> x \<and> x \<le> real_of_int 9)"
proof -
  let ?p = "''Enter Soil pH: ''"
  let ?w0 = "\<lparr>stdin = Some ''nan'' ## Some ''inf'' ## Some ''-inf'' ## Some ''7'' ## sconst None,
      stdout = []\<rparr>"
  let ?w1 = "\<lparr>stdin = Some ''inf'' ## Some ''-inf'' ## Some ''7'' ## sconst None,
      stdout = [Prompt ?p, Print_range 4 9]\<rparr>"
  let ?w2 = "\<lparr>stdin = Some ''-inf'' ## Some ''7'' ## sconst None,
      stdout = [Prompt ?p, Print_range 4 9, Prompt ?p, Print_range 4 9]\<rparr>"
  let ?w3 = "\<lparr>stdin = Some ''7'' ## sconst None,
      stdout = [Prompt ?p, Print_range 4 9, Prompt ?p, Print_range 4 9,
                Prompt ?p, Print_range 4 9]\<rparr>"
  let ?w4 = "\<lparr>stdin = sconst None,
      stdout = [Prompt ?p, Print_range 4 9, Prompt ?p, Print_range 4 9,
                Prompt ?p, Print_range 4 9, Prompt ?p]\<rparr>"
  have s1: "get_valid_input sample_env ?p 4 9 ?w0 = get_valid_input sample_env ?p 4 9 ?w1"
    using get_valid_input_finite [of sample_env ?p 4 9 ?w0 "Finite 7" ?w4 "''nan''"]
    by (simp add: sample_env_def sample_float_def)
  have s2: "get_valid_input sample_env ?p 4 9 ?w1 = get_valid_input sample_env ?p 4 9 ?w2"
    using get_valid_input_finite [of sample_env ?p 4 9 ?w1 "Finite 7" ?w4 "''inf''"]
    by (simp add: sample_env_def sample_float_def)
  have s3: "get_valid_input sample_env ?p 4 9 ?w2 = get_valid_input sample_env ?p 4 9 ?w3"
    using get_valid_input_finite [of sample_env ?p 4 9 ?w2 "Finite 7" ?w4 "''-inf''"]
    by (simp add: sample_env_def sample_float_def)
  have s4: "get_valid_input sample_env ?p 4 9 ?w3 = Some (Inr (Finite 7), ?w4)"
    using get_valid_input_accept [of ?w3 "''7''" sample_env 4 9 ?p]
    by (simp add: sample_env_def sample_float_def accepted_def)
  have "get_valid_input sample_env ?p 4 9 ?w0 = Some (Inr (Finite 7), ?w4)"
    using s1 s2 s3 s4 by simp
  moreover from this have "\<exists>x. Finite 7 = Finite x \<and> real_of_int 4 \<le> x \<and> x \<le> real_of_int 9"
    using get_valid_input_finite [of sample_env ?p 4 9 ?w0 "Finite 7" ?w4 "''nan''"] by blast
  ultimately show ?thesis by blast
qed

subsection \<open>The prediction path\<close>

lemma get_valid_input_step:
  "get_valid_input env prompt min_val max_val \<lparr>stdin = Some line ## rest, stdout = out\<rparr> =
     (if accepted env min_val max_val line
      then (case py_float env line of
              None \<Rightarrow> None
            | Some v \<Rightarrow> Some (Inr v, \<lparr>stdin = rest, stdout = out @ [Prompt prompt]\<rparr>))
      else get_valid_input env prompt min_val max_val
             \<lparr>stdin = rest, stdout = out @ [Prompt prompt, rejection env min_val max_val line]\<rparr>)"
  using get_valid_input_accept [of "\<lparr>stdin = Some line ## rest, stdout = out\<rparr>" line env min_val max_val prompt]
    get_valid_input_reject [of "\<lparr>stdin = Some line ## rest, stdout = out\<rparr>" line env min_val max_val prompt]
  by auto

lemma gather_inputs_four:
  assumes "gather_inputs env [(k1, a1, b1), (k2, a2, b2), (k3, a3, b3), (k4, a4, b4)] w = Some (Inr inputs, w')"
  shows "\<exists>v1 v2 v3 v4 w1 w2 w3.
           inputs = [v1, v2, v3, v4] \<and>
           get_valid_input env (''Enter '' @ k1 @ '': '') a1 b1 w = Some (Inr v1, w1) \<and>
           get_valid_input env (''Enter '' @ k2 @ '': '') a2 b2 w1 = Some (Inr v2, w2) \<and>
           get_valid_input env (''Enter '' @ k3 @ '': '') a3 b3 w2 = Some (Inr v3, w3) \<and>
           get_valid_input env (''Enter '' @ k4 @ '': '') a4 b4 w3 = Some (Inr v4, w')"
  using assms
  by (auto split: option.splits sum.splits prod.splits)

lemma get_valid_input_trace:
  assumes "get_valid_input env prompt min_val max_val w = Some (Inr v, w')"
  shows "\<exists>rejected good.
           stdin w = map Some rejected @- Some good ## stdin w' \<and>
           (\<forall>l \<in> set rejected. \<not> accepted env min_val max_val l) \<and>
           accepted env min_val max_val good \<and>
           py_float env good = Some v \<and>
           stdout w' = stdout w @ attempts env prompt min_val max_val rejected"
proof -
  have "\<forall>v w'. r = (Inr v, w') \<longrightarrow>
          (\<exists>rejected good.
             stdin w = map Some rejected @- Some good ## stdin w' \<and>
             (\<forall>l \<in> set rejected. \<not> accepted env min_val max_val l) \<and>
             accepted env min_val max_val good \<and>
             py_float env good = Some v \<and>
             stdout w' = stdout w @ attempts env prompt min_val max_val rejected)"
    if "get_valid_input env prompt min_val max_val w = Some r" for r
  proof (rule get_valid_input.raw_induct
      [where P = "\<lambda>env prompt lo hi w r. \<forall>v w'. r = (Inr v, w') \<longrightarrow>
          (\<exists>rejected good.
             stdin w = map Some rejected @- Some good ## stdin w' \<and>
             (\<forall>l \<in> set rejected. \<not> accepted env lo hi l) \<and>
             accepted env lo hi good \<and>
             py_float env good = Some v \<and>
             stdout w' = stdout w @ attempts env prompt lo hi rejected)", OF _ that])
    fix self env prompt lo hi w r
    assume IH: "\<And>env' prompt' lo' hi' w0 y. self env' prompt' lo' hi' w0 = Some y \<Longrightarrow>
          \<forall>v w'. y = (Inr v, w') \<longrightarrow>
            (\<exists>rejected good.
               stdin w0 = map Some rejected @- Some good ## stdin w' \<and>
               (\<forall>l \<in> set rejected. \<not> accepted env' lo' hi' l) \<and>
               accepted env' lo' hi' good \<and>
               py_float env' good = Some v \<and>
               stdout w' = stdout w0 @ attempts env' prompt' lo' hi' rejected)"
      and step: "(case input prompt w of
        (Inl e, w1) \<Rightarrow> Some (Inl e, w1)
      | (Inr line, w1) \<Rightarrow>
          (case py_float env line of
             Some v \<Rightarrow>
               if py_le (Finite (of_int lo)) v \<and> py_le v (Finite (of_int hi))
               then Some (Inr v, w1)
               else self env prompt lo hi (print (Print_range lo hi) w1)
           | None \<Rightarrow>
               self env prompt lo hi
                 (print (Print ''Invalid input. Please enter a numeric value.'') w1))) = Some r"
    show "\<forall>v w'. r = (Inr v, w') \<longrightarrow>
          (\<exists>rejected good.
             stdin w = map Some rejected @- Some good ## stdin w' \<and>
             (\<forall>l \<in> set rejected. \<not> accepted env lo hi l) \<and>
             accepted env lo hi good \<and>
             py_float env good = Some v \<and>
             stdout w' = stdout w @ attempts env prompt lo hi rejected)"
    proof (intro allI impI)
      fix v w'
      assume r: "r = (Inr v, w')"
      show "\<exists>rejected good.
             stdin w = map Some rejected @- Some good ## stdin w' \<and>
             (\<forall>l \<in> set rejected. \<not> accepted env lo hi l) \<and>
             accepted env lo hi good \<and>
             py_float env good = Some v \<and>
             stdout w' = stdout w @ attempts env prompt lo hi rejected"
      proof (cases "shd (stdin w)")
        case None
        with step r show ?thesis by (simp add: input_eof)
      next
        case (Some line)
        then have s: "stdin w = Some line ## stl (stdin w)"
          by (metis stream.collapse)
        let ?w1 = "\<lparr>stdin = stl (stdin w), stdout = stdout w @ [Prompt prompt]\<rparr>"
        show ?thesis
        proof (cases "accepted env lo hi line")
          case True
          with step r Some have "py_float env line = Some v" and "w' = ?w1"
            by (auto simp: input_line accepted_def split: option.splits)
          with True s have "stdin w = map Some [] @- Some line ## stdin w' \<and>
             (\<forall>l \<in> set []. \<not> accepted env lo hi l) \<and>
             accepted env lo hi line \<and>
             py_float env line = Some v \<and>
             stdout w' = stdout w @ attempts env prompt lo hi []"
            by (simp add: attempts_def)
          then show ?thesis by blast
        next
          case False
          with step Some
          have "self env prompt lo hi (print (rejection env lo hi line) ?w1) = Some r"
            by (auto simp: input_line accepted_def rejection_def split: option.splits if_splits)
          from IH [OF this] r obtain rejected good where
            t: "stdin (print (rejection env lo hi line) ?w1)
                  = map Some rejected @- Some good ## stdin w'"
               "\<forall>l \<in> set rejected. \<not> accepted env lo hi l"
               "accepted env lo hi good"
               "py_float env good = Some v"
               "stdout w' = stdout (print (rejection env lo hi line) ?w1)
                  @ attempts env prompt lo hi rejected"
            by blast
          from t s False have "stdin w = map Some (line # rejected) @- Some good ## stdin w' \<and>
             (\<forall>l \<in> set (line # rejected). \<not> accepted env lo hi l) \<and>
             accepted env lo hi good \<and>
             py_float env good = Some v \<and>
             stdout w' = stdout w @ attempts env prompt lo hi (line # rejected)"
            by (simp add: print_def attempts_def)
          then show ?thesis by blast
        qed
      qed
    qed
  qed
  with assms show ?thesis by blast
qed

lemma get_valid_input_run:
  assumes "stdin w = map Some rejected @- Some good ## rest"
    and "\<forall>l \<in> set rejected. \<not> accepted env min_val max_val l"
    and "accepted env min_val max_val good"
  shows "\<exists>x. py_float env good = Some (Finite x) \<and>
           real_of_int min_val \<le> x \<and> x \<le> real_of_int max_val \<and>
           get_valid_input env prompt min_val max_val w =
             Some (Inr (Finite x),
                   \<lparr>stdin = rest,
                    stdout = stdout w @ attempts env prompt min_val max_val rejected\<rparr>)"
proof -
  from get_valid_input_first_accepted [OF assms, of prompt] obtain v where
    v: "py_float env good = Some v"
    and g: "get_valid_input env prompt min_val max_val w =
             Some (Inr v,
                   \<lparr>stdin = rest,
                    stdout = stdout w @ attempts env prompt min_val max_val rejected\<rparr>)"
    by (auto simp: attempts_def)
  from get_valid_input_returns_in_range [OF g] v g show ?thesis by blast
qed

lemma world_stdout_update:
  "w\<lparr>stdout := out\<rparr> = \<lparr>stdin = stdin w, stdout = out\<rparr>"
  by (cases w) simp

lemma predict_after_gather:
  assumes "gather_inputs env input_ranges w = Some (Inr inputs, w1)"
  shows "\<exists>res out. predict_and_send_to_firebase env clf scaler le firebase_url w =
           Some (res, \<lparr>stdin = stdin w1, stdout = stdout w1 @ out\<rparr>)"
proof -
  have same: "w1 = \<lparr>stdin = stdin w1, stdout = stdout w1 @ []\<rparr>"
    by simp
  show ?thesis
  proof (cases "scaler_transform scaler [inputs]")
    case (Inl e)
    with assms same show ?thesis
      by (simp add: predict_and_send_to_firebase_def) (rule exI [of _ "[]"], simp)
  next
    case scaled: (Inr scaled)
    show ?thesis
    proof (cases "le_inverse_transform le (map clf scaled)")
      case (Inl e)
      with assms scaled same show ?thesis
        by (simp add: predict_and_send_to_firebase_def) (rule exI [of _ "[]"], simp)
    next
      case crops: (Inr crops)
      show ?thesis
      proof (cases crops)
        case Nil
        with assms scaled crops same show ?thesis
          by (simp add: predict_and_send_to_firebase_def) (rule exI [of _ "[]"], simp)
      next
        case (Cons crop others)
        with assms scaled crops show ?thesis
          by (cases "firebase_put env firebase_url ''/croppredicted'' ''crop'' crop")
             (simp_all add: predict_and_send_to_firebase_def print_def world_stdout_update)
      qed
    qed
  qed
qed

lemma predict_returns_after_gather:
  assumes "predict_and_send_to_firebase env clf scaler le firebase_url w = Some (Inr u, w2)"
  shows "\<exists>inputs w1 scaled crop others last_line.
           gather_inputs env input_ranges w = Some (Inr inputs, w1) \<and>
           scaler_transform scaler [inputs] = Inr scaled \<and>
           le_inverse_transform le (map clf scaled) = Inr (crop # others) \<and>
           w2 = \<lparr>stdin = stdin w1, stdout = stdout w1 @ [Print_predicted crop, last_line]\<rparr>"
  using assms
  by (auto simp: predict_and_send_to_firebase_def print_def Let_def world_stdout_update
      split: option.splits sum.splits prod.splits list.splits)

text \<open>
  Claim C10. The prediction path collects exactly four inputs, in the fixed order and closed
  ranges Air Humidity in [10, 90], Air Temperature in [10, 45], Soil pH in [4, 9], Rainfall in
  [0, 300]; the dictionary is this constant on every run. Whenever standard input holds, for
  each of the four ranges in that order, finitely many rejected lines and then an accepted
  line, the collection returns the four values of the accepted lines, each finite and within
  its range, has read exactly these lines and has written the four prompts in that order, and
  the prediction path ends having read exactly these lines. Conversely, a collection that
  returns has consumed standard input in exactly this way, and a prediction that returns has
  scaled, classified and decoded the vector of the four collected values, and its output is
  that of the collection followed by the predicted crop and the outcome of the remote call.
\<close>

theorem prediction_collects_four_inputs:
  "input_ranges =
     [(''Air Humidity (%)'', (10, 90)),
      (''Air Temperature ('' @ [CHR 0xC2, CHR 0xB0] @ ''C)'', (10, 45)),
      (''Soil pH'', (4, 9)),
      (''Rainfall (mm)'', (0, 300))]
   \<and>
   (stdin w = map Some r1 @- Some g1 ## map Some r2 @- Some g2 ##
              map Some r3 @- Some g3 ## map Some r4 @- Some g4 ## rest \<and>
    (\<forall>l \<in> set r1. \<not> accepted env 10 90 l) \<and> accepted env 10 90 g1 \<and>
    (\<forall>l \<in> set r2. \<not> accepted env 10 45 l) \<and> accepted env 10 45 g2 \<and>
    (\<forall>l \<in> set r3. \<not> accepted env 4 9 l) \<and> accepted env 4 9 g3 \<and>
    (\<forall>l \<in> set r4. \<not> accepted env 0 300 l) \<and> accepted env 0 300 g4 \<longrightarrow>
      (\<exists>h t p r.
         py_float env g1 = Some (Finite h) \<and> py_float env g2 = Some (Finite t) \<and>
         py_float env g3 = Some (Finite p) \<and> py_float env g4 = Some (Finite r) \<and>
         10 \<le> h \<and> h \<le> 90 \<and> 10 \<le> t \<and> t \<le> 45 \<and> 4 \<le> p \<and> p \<le> 9 \<and> 0 \<le> r \<and> r \<le> 300 \<and>
         gather_inputs env input_ranges w =
           Some (Inr [Finite h, Finite t, Finite p, Finite r],
                 \<lparr>stdin = rest,
                  stdout = stdout w
                    @ attempts env ''Enter Air Humidity (%): '' 10 90 r1
                    @ attempts env (''Enter Air Temperature ('' @ [CHR 0xC2, CHR 0xB0] @ ''C): '')
                        10 45 r2
                    @ attempts env ''Enter Soil pH: '' 4 9 r3
                    @ attempts env ''Enter Rainfall (mm): '' 0 300 r4\<rparr>) \<and>
         (\<exists>res out.
            predict_and_send_to_firebase env clf scaler le firebase_url w =
              Some (res,
                    \<lparr>stdin = rest,
                     stdout = stdout w
                       @ attempts env ''Enter Air Humidity (%): '' 10 90 r1
                       @ attempts env
                           (''Enter Air Temperature ('' @ [CHR 0xC2, CHR 0xB0] @ ''C): '') 10 45 r2
                       @ attempts env ''Enter Soil pH: '' 4 9 r3
                       @ attempts env ''Enter Rainfall (mm): '' 0 300 r4
                       @ out\<rparr>))))
   \<and>
   (gather_inputs env input_ranges w = Some (Inr inputs, w') \<longrightarrow>
      (\<exists>h t p r r1 g1 r2 g2 r3 g3 r4 g4.
         inputs = [Finite h, Finite t, Finite p, Finite r] \<and>
         10 \<le> h \<and> h \<le> 90 \<and> 10 \<le> t \<and> t \<le> 45 \<and> 4 \<le> p \<and> p \<le> 9 \<and> 0 \<le> r \<and> r \<le> 300 \<and>
         py_float env g1 = Some (Finite h) \<and> py_float env g2 = Some (Finite t) \<and>
         py_float env g3 = Some (Finite p) \<and> py_float env g4 = Some (Finite r) \<and>
         stdin w = map Some r1 @- Some g1 ## map Some r2 @- Some g2 ##
                   map Some r3 @- Some g3 ## map Some r4 @- Some g4 ## stdin w' \<and>
         (\<forall>l \<in> set r1. \<not> accepted env 10 90 l) \<and> (\<forall>l \<in> set r2. \<not> accepted env 10 45 l) \<and>
         (\<forall>l \<in> set r3. \<not> accepted env 4 9 l) \<and> (\<forall>l \<in> set r4. \<not> accepted env 0 300 l) \<and>
         stdout w' = stdout w
           @ attempts env ''Enter Air Humidity (%): '' 10 90 r1
           @ attempts env (''Enter Air Temperature ('' @ [CHR 0xC2, CHR 0xB0] @ ''C): '') 10 45 r2
           @ attempts env ''Enter Soil pH: '' 4 9 r3
           @ attempts env ''Enter Rainfall (mm): '' 0 300 r4))
   \<and>
   (predict_and_send_to_firebase env clf scaler le firebase_url w = Some (Inr u, w'') \<longrightarrow>
      (\<exists>inputs w1 scaled crop others last_line.
         gather_inputs env input_ranges w = Some (Inr inputs, w1) \<and> length inputs = 4 \<and>
         scaler_transform scaler [inputs] = Inr scaled \<and>
         le_inverse_transform le (map clf scaled) = Inr (crop # others) \<and>
         w'' = \<lparr>stdin = stdin w1,
                stdout = stdout w1 @ [Print_predicted crop, last_line]\<rparr>))"
proof (intro conjI impI)
  show "input_ranges =
     [(''Air Humidity (%)'', (10, 90)),
      (''Air Temperature ('' @ [CHR 0xC2, CHR 0xB0] @ ''C)'', (10, 45)),
      (''Soil pH'', (4, 9)),
      (''Rainfall (mm)'', (0, 300))]"
    by (simp add: input_ranges_def)
next
  let ?P1 = "''Enter Air Humidity (%): ''"
  let ?P2 = "''Enter Air Temperature ('' @ [CHR 0xC2, CHR 0xB0] @ ''C): ''"
  let ?P3 = "''Enter Soil pH: ''"
  let ?P4 = "''Enter Rainfall (mm): ''"
  assume a: "stdin w = map Some r1 @- Some g1 ## map Some r2 @- Some g2 ##
              map Some r3 @- Some g3 ## map Some r4 @- Some g4 ## rest \<and>
    (\<forall>l \<in> set r1. \<not> accepted env 10 90 l) \<and> accepted env 10 90 g1 \<and>
    (\<forall>l \<in> set r2. \<not> accepted env 10 45 l) \<and> accepted env 10 45 g2 \<and>
    (\<forall>l \<in> set r3. \<not> accepted env 4 9 l) \<and> accepted env 4 9 g3 \<and>
    (\<forall>l \<in> set r4. \<not> accepted env 0 300 l) \<and> accepted env 0 300 g4"
  let ?w1 = "\<lparr>stdin = map Some r2 @- Some g2 ## map Some r3 @- Some g3 ##
                      map Some r4 @- Some g4 ## rest,
              stdout = stdout w @ attempts env ?P1 10 90 r1\<rparr>"
  let ?w2 = "\<lparr>stdin = map Some r3 @- Some g3 ## map Some r4 @- Some g4 ## rest,
              stdout = stdout ?w1 @ attempts env ?P2 10 45 r2\<rparr>"
  let ?w3 = "\<lparr>stdin = map Some r4 @- Some g4 ## rest,
              stdout = stdout ?w2 @ attempts env ?P3 4 9 r3\<rparr>"
  let ?w4 = "\<lparr>stdin = rest, stdout = stdout ?w3 @ attempts env ?P4 0 300 r4\<rparr>"
  from a get_valid_input_run [of w r1 g1 "stdin ?w1" env 10 90 ?P1]
  obtain h where h: "py_float env g1 = Some (Finite h)" "10 \<le> h" "h \<le> 90"
    "get_valid_input env ?P1 10 90 w = Some (Inr (Finite h), ?w1)"
    by auto
  from a get_valid_input_run [of ?w1 r2 g2 "stdin ?w2" env 10 45 ?P2]
  obtain t where t: "py_float env g2 = Some (Finite t)" "10 \<le> t" "t \<le> 45"
    "get_valid_input env ?P2 10 45 ?w1 = Some (Inr (Finite t), ?w2)"
    by auto
  from a get_valid_input_run [of ?w2 r3 g3 "stdin ?w3" env 4 9 ?P3]
  obtain p where p: "py_float env g3 = Some (Finite p)" "4 \<le> p" "p \<le> 9"
    "get_valid_input env ?P3 4 9 ?w2 = Some (Inr (Finite p), ?w3)"
    by auto
  from a get_valid_input_run [of ?w3 r4 g4 rest env 0 300 ?P4]
  obtain r where r: "py_float env g4 = Some (Finite r)" "0 \<le> r" "r \<le> 300"
    "get_valid_input env ?P4 0 300 ?w3 = Some (Inr (Finite r), ?w4)"
    by auto
  have g: "gather_inputs env input_ranges w =
             Some (Inr [Finite h, Finite t, Finite p, Finite r], ?w4)"
    using h(4) t(4) p(4) r(4) by (simp add: input_ranges_def)
  from predict_after_gather [OF g, of clf scaler le firebase_url]
  obtain res out where
    "predict_and_send_to_firebase env clf scaler le firebase_url w =
       Some (res, \<lparr>stdin = stdin ?w4, stdout = stdout ?w4 @ out\<rparr>)"
    by blast
  with g h t p r
  show "\<exists>h t p r.
         py_float env g1 = Some (Finite h) \<and> py_float env g2 = Some (Finite t) \<and>
         py_float env g3 = Some (Finite p) \<and> py_float env g4 = Some (Finite r) \<and>
         10 \<le> h \<and> h \<le> 90 \<and> 10 \<le> t \<and> t \<le> 45 \<and> 4 \<le> p \<and> p \<le> 9 \<and> 0 \<le> r \<and> r \<le> 300 \<and>
         gather_inputs env input_ranges w =
           Some (Inr [Finite h, Finite t, Finite p, Finite r],
                 \<lparr>stdin = rest,
                  stdout = stdout w
                    @ attempts env ''Enter Air Humidity (%): '' 10 90 r1
                    @ attempts env (''Enter Air Temperature ('' @ [CHR 0xC2, CHR 0xB0] @ ''C): '')
                        10 45 r2
                    @ attempts env ''Enter Soil pH: '' 4 9 r3
                    @ attempts env ''Enter Rainfall (mm): '' 0 300 r4\<rparr>) \<and>
         (\<exists>res out.
            predict_and_send_to_firebase env clf scaler le firebase_url w =
              Some (res,
                    \<lparr>stdin = rest,
                     stdout = stdout w
                       @ attempts env ''Enter Air Humidity (%): '' 10 90 r1
                       @ attempts env
                           (''Enter Air Temperature ('' @ [CHR 0xC2, CHR 0xB0] @ ''C): '') 10 45 r2
                       @ attempts env ''Enter Soil pH: '' 4 9 r3
                       @ attempts env ''Enter Rainfall (mm): '' 0 300 r4
                       @ out\<rparr>))"
    by auto
next
  let ?P1 = "''Enter Air Humidity (%): ''"
  let ?P2 = "''Enter Air Temperature ('' @ [CHR 0xC2, CHR 0xB0] @ ''C): ''"
  let ?P3 = "''Enter Soil pH: ''"
  let ?P4 = "''Enter Rainfall (mm): ''"
  assume "gather_inputs env input_ranges w = Some (Inr inputs, w')"
  then obtain v1 v2 v3 v4 w1 w2 w3 where i: "inputs = [v1, v2, v3, v4]"
    and c1: "get_valid_input env ?P1 10 90 w = Some (Inr v1, w1)"
    and c2: "get_valid_input env ?P2 10 45 w1 = Some (Inr v2, w2)"
    and c3: "get_valid_input env ?P3 4 9 w2 = Some (Inr v3, w3)"
    and c4: "get_valid_input env ?P4 0 300 w3 = Some (Inr v4, w')"
    unfolding input_ranges_def using gather_inputs_four
      [of env "''Air Humidity (%)''" 10 90 "''Air Temperature ('' @ [CHR 0xC2, CHR 0xB0] @ ''C)''" 10 45
          "''Soil pH''" 4 9 "''Rainfall (mm)''" 0 300 w inputs w']
    by auto
  from get_valid_input_returns_in_range [OF c1] obtain h where
    h: "v1 = Finite h" "10 \<le> h" "h \<le> 90" by auto
  from get_valid_input_returns_in_range [OF c2] obtain t where
    t: "v2 = Finite t" "10 \<le> t" "t \<le> 45" by auto
  from get_valid_input_returns_in_range [OF c3] obtain p where
    p: "v3 = Finite p" "4 \<le> p" "p \<le> 9" by auto
  from get_valid_input_returns_in_range [OF c4] obtain r where
    r: "v4 = Finite r" "0 \<le> r" "r \<le> 300" by auto
  from get_valid_input_trace [OF c1] obtain r1 g1 where
    t1: "stdin w = map Some r1 @- Some g1 ## stdin w1"
      "\<forall>l \<in> set r1. \<not> accepted env 10 90 l" "py_float env g1 = Some v1"
      "stdout w1 = stdout w @ attempts env ?P1 10 90 r1"
    by blast
  from get_valid_input_trace [OF c2] obtain r2 g2 where
    t2: "stdin w1 = map Some r2 @- Some g2 ## stdin w2"
      "\<forall>l \<in> set r2. \<not> accepted env 10 45 l" "py_float env g2 = Some v2"
      "stdout w2 = stdout w1 @ attempts env ?P2 10 45 r2"
    by blast
  from get_valid_input_trace [OF c3] obtain r3 g3 where
    t3: "stdin w2 = map Some r3 @- Some g3 ## stdin w3"
      "\<forall>l \<in> set r3. \<not> accepted env 4 9 l" "py_float env g3 = Some v3"
      "stdout w3 = stdout w2 @ attempts env ?P3 4 9 r3"
    by blast
  from get_valid_input_trace [OF c4] obtain r4 g4 where
    t4: "stdin w3 = map Some r4 @- Some g4 ## stdin w'"
      "\<forall>l \<in> set r4. \<not> accepted env 0 300 l" "py_float env g4 = Some v4"
      "stdout w' = stdout w3 @ attempts env ?P4 0 300 r4"
    by blast
  have s: "stdin w = map Some r1 @- Some g1 ## map Some r2 @- Some g2 ##
                   map Some r3 @- Some g3 ## map Some r4 @- Some g4 ## stdin w'"
    using t1(1) t2(1) t3(1) t4(1) by simp
  have o: "stdout w' = stdout w
           @ attempts env ?P1 10 90 r1 @ attempts env ?P2 10 45 r2
           @ attempts env ?P3 4 9 r3 @ attempts env ?P4 0 300 r4"
    using t1(4) t2(4) t3(4) t4(4) by simp
  from i h t p r t1(2,3) t2(2,3) t3(2,3) t4(2,3) s o
  show "\<exists>h t p r r1 g1 r2 g2 r3 g3 r4 g4.
         inputs = [Finite h, Finite t, Finite p, Finite r] \<and>
         10 \<le> h \<and> h \<le> 90 \<and> 10 \<le> t \<and> t \<le> 45 \<and> 4 \<le> p \<and> p \<le> 9 \<and> 0 \<le> r \<and> r \<le> 300 \<and>
         py_float env g1 = Some (Finite h) \<and> py_float env g2 = Some (Finite t) \<and>
         py_float env g3 = Some (Finite p) \<and> py_float env g4 = Some (Finite r) \<and>
         stdin w = map Some r1 @- Some g1 ## map Some r2 @- Some g2 ##
                   map Some r3 @- Some g3 ## map Some r4 @- Some g4 ## stdin w' \<and>
         (\<forall>l \<in> set r1. \<not> accepted env 10 90 l) \<and> (\<forall>l \<in> set r2. \<not> accepted env 10 45 l) \<and>
         (\<forall>l \<in> set r3. \<not> accepted env 4 9 l) \<and> (\<forall>l \<in> set r4. \<not> accepted env 0 300 l) \<and>
         stdout w' = stdout w
           @ attempts env ''Enter Air Humidity (%): '' 10 90 r1
           @ attempts env (''Enter Air Temperature ('' @ [CHR 0xC2, CHR 0xB0] @ ''C): '') 10 45 r2
           @ attempts env ''Enter Soil pH: '' 4 9 r3
           @ attempts env ''Enter Rainfall (mm): '' 0 300 r4"
    by blast
next
  assume a: "predict_and_send_to_firebase env clf scaler le firebase_url w = Some (Inr u, w'')"
  from predict_returns_after_gather [OF a] obtain inputs w1 scaled crop others last_line where
    g: "gather_inputs env input_ranges w = Some (Inr inputs, w1)"
    and rest: "scaler_transform scaler [inputs] = Inr scaled"
      "le_inverse_transform le (map clf scaled) = Inr (crop # others)"
      "w'' = \<lparr>stdin = stdin w1, stdout = stdout w1 @ [Print_predicted crop, last_line]\<rparr>"
    by blast
  from g have "length inputs = 4"
    unfolding input_ranges_def
    using gather_inputs_four
      [of env "''Air Humidity (%)''" 10 90 "''Air Temperature ('' @ [CHR 0xC2, CHR 0xB0] @ ''C)''" 10 45
          "''Soil pH''" 4 9 "''Rainfall (mm)''" 0 300 w inputs w1]
    by auto
  with g rest show "\<exists>inputs w1 scaled crop others last_line.
         gather_inputs env input_ranges w = Some (Inr inputs, w1) \<and> length inputs = 4 \<and>
         scaler_transform scaler [inputs] = Inr scaled \<and>
         le_inverse_transform le (map clf scaled) = Inr (crop # others) \<and>
         w'' = \<lparr>stdin = stdin w1,
                stdout = stdout w1 @ [Print_predicted crop, last_line]\<rparr>"
    by blast
qed

lemma sample_accepted:
  "accepted sample_env 10 90 ''80''" "\<not> accepted sample_env 10 45 ''abc''"
  "accepted sample_env 10 45 ''20''" "accepted sample_env 4 9 ''7''"
  "\<not> accepted sample_env 0 300 ''301''" "accepted sample_env 0 300 ''200''"
  by (simp_all add: accepted_def sample_env_def sample_float_def)

lemma sample_parsed:
  "py_float sample_env ''80'' = Some (Finite 80)" "py_float sample_env ''abc'' = None"
  "py_float sample_env ''20'' = Some (Finite 20)" "py_float sample_env ''7'' = Some (Finite 7)"
  "py_float sample_env ''301'' = Some (Finite 301)"
  "py_float sample_env ''200'' = Some (Finite 200)"
  by (simp_all add: sample_env_def sample_float_def)

lemma gather_inputs_sample:
  "gather_inputs sample_env input_ranges sample_world =
     Some (Inr [Finite 80, Finite 20, Finite 7, Finite 200],
           \<lparr>stdin = sconst None,
            stdout =
              [Prompt ''Enter Air Humidity (%): '',
               Prompt (''Enter Air Temperature ('' @ [CHR 0xC2, CHR 0xB0] @ ''C): ''),
               Print ''Invalid input. Please enter a numeric value.'',
               Prompt (''Enter Air Temperature ('' @ [CHR 0xC2, CHR 0xB0] @ ''C): ''),
               Prompt ''Enter Soil pH: '',
               Prompt ''Enter Rainfall (mm): '',
               Print_range 0 300,
               Prompt ''Enter Rainfall (mm): '']\<rparr>)"
  by (simp add: input_ranges_def sample_world_def get_valid_input_step sample_accepted
      sample_parsed rejection_def)

lemma sample_prediction:
  "scaler_transform sample_scaler [[Finite 80, Finite 20, Finite 7, Finite 200]] =
     Inr [[Finite 11, Finite (- 5), Finite 1, Finite 1]]"
  "le_inverse_transform sample_encoder [Suc 0] = Inr [''rice'']"
  by (simp_all add: scaler_transform_def sample_scaler_def le_inverse_transform_def
      sample_encoder_def le_fit_def decode_def)

lemma sample_put:
  "firebase_put sample_env url path key v = Inl (RemoteUnavailable ''timeout'')"
  by (simp add: sample_env_def)

lemma sample_run:
  "predict_and_send_to_firebase sample_env (\<lambda>row. 1) sample_scaler sample_encoder
     ''https://cropit-eb156.firebaseio.com/'' sample_world =
   Some (Inr (),
         \<lparr>stdin = sconst None,
          stdout =
            [Prompt ''Enter Air Humidity (%): '',
             Prompt (''Enter Air Temperature ('' @ [CHR 0xC2, CHR 0xB0] @ ''C): ''),
             Print ''Invalid input. Please enter a numeric value.'',
             Prompt (''Enter Air Temperature ('' @ [CHR 0xC2, CHR 0xB0] @ ''C): ''),
             Prompt ''Enter Soil pH: '',
             Prompt ''Enter Rainfall (mm): '',
             Print_range 0 300,
             Prompt ''Enter Rainfall (mm): '',
             Print_predicted ''rice'',
             Print_firebase_error (RemoteUnavailable ''timeout'')]\<rparr>)"
  by (simp add: predict_and_send_to_firebase_def gather_inputs_sample sample_prediction
      print_def sample_put)

text \<open>
  The run of claim C10 on the sample collaborators: the lines \<open>80\<close>, \<open>abc\<close>, \<open>20\<close>, \<open>7\<close>,
  \<open>301\<close>, \<open>200\<close>, of which \<open>abc\<close> is rejected at the temperature prompt and \<open>301\<close> at the
  rainfall prompt.
\<close>

theorem prediction_collects_four_inputs_witness:
  "gather_inputs sample_env input_ranges sample_world =
     Some (Inr [Finite 80, Finite 20, Finite 7, Finite 200],
           \<lparr>stdin = sconst None,
            stdout =
              [Prompt ''Enter Air Humidity (%): '',
               Prompt (''Enter Air Temperature ('' @ [CHR 0xC2, CHR 0xB0] @ ''C): ''),
               Print ''Invalid input. Please enter a numeric value.'',
               Prompt (''Enter Air Temperature ('' @ [CHR 0xC2, CHR 0xB0] @ ''C): ''),
               Prompt ''Enter Soil pH: '',
               Prompt ''Enter Rainfall (mm): '',
               Print_range 0 300,
               Prompt ''Enter Rainfall (mm): '']\<rparr>)
   \<and> (\<exists>res out.
         predict_and_send_to_firebase sample_env (\<lambda>row. 1) sample_scaler sample_encoder
           ''https://cropit-eb156.firebaseio.com/'' sample_world =
         Some (res,
               \<lparr>stdin = sconst None,
                stdout =
                  [Prompt ''Enter Air Humidity (%): '',
                   Prompt (''Enter Air Temperature ('' @ [CHR 0xC2, CHR 0xB0] @ ''C): ''),
                   Print ''Invalid input. Please enter a numeric value.'',
                   Prompt (''Enter Air Temperature ('' @ [CHR 0xC2, CHR 0xB0] @ ''C): ''),
                   Prompt ''Enter Soil pH: '',
                   Prompt ''Enter Rainfall (mm): '',
                   Print_range 0 300,
                   Prompt ''Enter Rainfall (mm): ''] @ out\<rparr>))
   \<and> (\<exists>inputs w1 scaled last_line.
         gather_inputs sample_env input_ranges sample_world = Some (Inr inputs, w1) \<and>
         length inputs = 4 \<and>
         scaler_transform sample_scaler [inputs] = Inr scaled \<and>
         stdin w1 = sconst None \<and>
         stdout w1 @ [Print_predicted ''rice'', last_line] =
           [Prompt ''Enter Air Humidity (%): '',
            Prompt (''Enter Air Temperature ('' @ [CHR 0xC2, CHR 0xB0] @ ''C): ''),
            Print ''Invalid input. Please enter a numeric value.'',
            Prompt (''Enter Air Temperature ('' @ [CHR 0xC2, CHR 0xB0] @ ''C): ''),
            Prompt ''Enter Soil pH: '',
            Prompt ''Enter Rainfall (mm): '',
            Print_range 0 300,
            Prompt ''Enter Rainfall (mm): '',
            Print_predicted ''rice'',
            Print_firebase_error (RemoteUnavailable ''timeout'')])"
proof -
  let ?final = "\<lparr>stdin = sconst None,
          stdout =
            [Prompt ''Enter Air Humidity (%): '',
             Prompt (''Enter Air Temperature ('' @ [CHR 0xC2, CHR 0xB0] @ ''C): ''),
             Print ''Invalid input. Please enter a numeric value.'',
             Prompt (''Enter Air Temperature ('' @ [CHR 0xC2, CHR 0xB0] @ ''C): ''),
             Prompt ''Enter Soil pH: '',
             Prompt ''Enter Rainfall (mm): '',
             Print_range 0 300,
             Prompt ''Enter Rainfall (mm): '',
             Print_predicted ''rice'',
             Print_firebase_error (RemoteUnavailable ''timeout'')]\<rparr>"
  note c = prediction_collects_four_inputs
    [where w = sample_world and env = sample_env
       and ?r1.0 = "[]" and ?g1.0 = "''80''" and ?r2.0 = "[''abc'']" and ?g2.0 = "''20''"
       and ?r3.0 = "[]" and ?g3.0 = "''7''" and ?r4.0 = "[''301'']" and ?g4.0 = "''200''"
       and rest = "sconst None" and clf = "\<lambda>row. 1" and scaler = sample_scaler
       and le = sample_encoder and firebase_url = "''https://cropit-eb156.firebaseio.com/''"
       and u = "()" and w'' = ?final]
  have s: "stdin sample_world = map Some [] @- Some ''80'' ## map Some [''abc''] @- Some ''20'' ##
              map Some [] @- Some ''7'' ## map Some [''301''] @- Some ''200'' ## sconst None"
    by (simp add: sample_world_def)
  have o: "stdout sample_world = []"
    by (simp add: sample_world_def)
  have hyp: "stdin sample_world = map Some [] @- Some ''80'' ## map Some [''abc''] @- Some ''20'' ##
              map Some [] @- Some ''7'' ## map Some [''301''] @- Some ''200'' ## sconst None \<and>
    (\<forall>l \<in> set []. \<not> accepted sample_env 10 90 l) \<and> accepted sample_env 10 90 ''80'' \<and>
    (\<forall>l \<in> set [''abc'']. \<not> accepted sample_env 10 45 l) \<and> accepted sample_env 10 45 ''20'' \<and>
    (\<forall>l \<in> set []. \<not> accepted sample_env 4 9 l) \<and> accepted sample_env 4 9 ''7'' \<and>
    (\<forall>l \<in> set [''301'']. \<not> accepted sample_env 0 300 l) \<and> accepted sample_env 0 300 ''200''"
    using s sample_accepted by simp
  note f = mp [OF c [THEN conjunct2, THEN conjunct1] hyp]
  from f have 1: "gather_inputs sample_env input_ranges sample_world =
     Some (Inr [Finite 80, Finite 20, Finite 7, Finite 200],
           \<lparr>stdin = sconst None,
            stdout =
              [Prompt ''Enter Air Humidity (%): '',
               Prompt (''Enter Air Temperature ('' @ [CHR 0xC2, CHR 0xB0] @ ''C): ''),
               Print ''Invalid input. Please enter a numeric value.'',
               Prompt (''Enter Air Temperature ('' @ [CHR 0xC2, CHR 0xB0] @ ''C): ''),
               Prompt ''Enter Soil pH: '',
               Prompt ''Enter Rainfall (mm): '',
               Print_range 0 300,
               Prompt ''Enter Rainfall (mm): '']\<rparr>)"
    by (auto simp: attempts_def rejection_def o sample_parsed)
  from f have 2: "\<exists>res out.
         predict_and_send_to_firebase sample_env (\<lambda>row. 1) sample_scaler sample_encoder
           ''https://cropit-eb156.firebaseio.com/'' sample_world =
         Some (res,
               \<lparr>stdin = sconst None,
                stdout =
                  [Prompt ''Enter Air Humidity (%): '',
                   Prompt (''Enter Air Temperature ('' @ [CHR 0xC2, CHR 0xB0] @ ''C): ''),
                   Print ''Invalid input. Please enter a numeric value.'',
                   Prompt (''Enter Air Temperature ('' @ [CHR 0xC2, CHR 0xB0] @ ''C): ''),
                   Prompt ''Enter Soil pH: '',
                   Prompt ''Enter Rainfall (mm): '',
                   Print_range 0 300,
                   Prompt ''Enter Rainfall (mm): ''] @ out\<rparr>)"
    by (auto simp: attempts_def rejection_def o sample_parsed)
  from mp [OF c [THEN conjunct2, THEN conjunct2, THEN conjunct2] sample_run]
  obtain inputs w1 scaled crop others last_line where
    b: "gather_inputs sample_env input_ranges sample_world = Some (Inr inputs, w1)"
      "length inputs = 4"
      "scaler_transform sample_scaler [inputs] = Inr scaled"
      "le_inverse_transform sample_encoder (map (\<lambda>row. 1) scaled) = Inr (crop # others)"
      "?final = \<lparr>stdin = stdin w1, stdout = stdout w1 @ [Print_predicted crop, last_line]\<rparr>"
    by blast
  from b(5) have e: "stdin w1 = sconst None"
    "stdout w1 @ [Print_predicted crop, last_line] =
           [Prompt ''Enter Air Humidity (%): '',
            Prompt (''Enter Air Temperature ('' @ [CHR 0xC2, CHR 0xB0] @ ''C): ''),
            Print ''Invalid input. Please enter a numeric value.'',
            Prompt (''Enter Air Temperature ('' @ [CHR 0xC2, CHR 0xB0] @ ''C): ''),
            Prompt ''Enter Soil pH: '',
            Prompt ''Enter Rainfall (mm): '',
            Print_range 0 300,
            Prompt ''Enter Rainfall (mm): '',
            Print_predicted ''rice'',
            Print_firebase_error (RemoteUnavailable ''timeout'')]"
    by simp_all
  from b(1) 1 have "stdout w1 =
              [Prompt ''Enter Air Humidity (%): '',
               Prompt (''Enter Air Temperature ('' @ [CHR 0xC2, CHR 0xB0] @ ''C): ''),
               Print ''Invalid input. Please enter a numeric value.'',
               Prompt (''Enter Air Temperature ('' @ [CHR 0xC2, CHR 0xB0] @ ''C): ''),
               Prompt ''Enter Soil pH: '',
               Prompt ''Enter Rainfall (mm): '',
               Print_range 0 300,
               Prompt ''Enter Rainfall (mm): '']"
    by auto
  with e(2) have "crop = ''rice''" by simp
  with b e have 3: "\<exists>inputs w1 scaled last_line.
         gather_inputs sample_env input_ranges sample_world = Some (Inr inputs, w1) \<and>
         length inputs = 4 \<and>
         scaler_transform sample_scaler [inputs] = Inr scaled \<and>
         stdin w1 = sconst None \<and>
         stdout w1 @ [Print_predicted ''rice'', last_line] =
           [Prompt ''Enter Air Humidity (%): '',
            Prompt (''Enter Air Temperature ('' @ [CHR 0xC2, CHR 0xB0] @ ''C): ''),
            Print ''Invalid input. Please enter a numeric value.'',
            Prompt (''Enter Air Temperature ('' @ [CHR 0xC2, CHR 0xB0] @ ''C): ''),
            Prompt ''Enter Soil pH: '',
            Prompt ''Enter Rainfall (mm): '',
            Print_range 0 300,
            Prompt ''Enter Rainfall (mm): '',
            Print_predicted ''rice'',
            Print_firebase_error (RemoteUnavailable ''timeout'')]"
    by blast
  from 1 2 3 show ?thesis by blast
qed

text \<open>
  Claim C8. Once the inputs are collected, scaled, classified and decoded to a crop, the crop
  is printed before the remote call. If \<open>put\<close> then raises, the exception is caught and
  printed and the function returns normally; if it succeeds, the success message is printed.
  In both cases the function returns normally, and the predicted crop is in the output,
  followed by one line for the outcome of the remote call.
\<close>

theorem put_failure_keeps_prediction:
  "gather_inputs env input_ranges w = Some (Inr inputs, w1) \<and>
   scaler_transform scaler [inputs] = Inr scaled \<and>
   le_inverse_transform le (map clf scaled) = Inr (crop # others) \<longrightarrow>
     (\<forall>e. firebase_put env firebase_url ''/croppredicted'' ''crop'' crop = Inl e \<longrightarrow>
        predict_and_send_to_firebase env clf scaler le firebase_url w =
          Some (Inr (),
                \<lparr>stdin = stdin w1,
                 stdout = stdout w1 @ [Print_predicted crop, Print_firebase_error e]\<rparr>))
     \<and>
     (\<forall>u. firebase_put env firebase_url ''/croppredicted'' ''crop'' crop = Inr u \<longrightarrow>
        predict_and_send_to_firebase env clf scaler le firebase_url w =
          Some (Inr (),
                \<lparr>stdin = stdin w1,
                 stdout = stdout w1 @ [Print_predicted crop,
                                       Print ''Prediction successfully sent to Firebase!'']\<rparr>))
     \<and>
     (\<exists>last_line.
        predict_and_send_to_firebase env clf scaler le firebase_url w =
          Some (Inr (),
                \<lparr>stdin = stdin w1,
                 stdout = stdout w1 @ [Print_predicted crop, last_line]\<rparr>))"
proof (intro impI)
  assume a: "gather_inputs env input_ranges w = Some (Inr inputs, w1) \<and>
   scaler_transform scaler [inputs] = Inr scaled \<and>
   le_inverse_transform le (map clf scaled) = Inr (crop # others)"
  let ?put = "firebase_put env firebase_url ''/croppredicted'' ''crop'' crop"
  let ?run = "predict_and_send_to_firebase env clf scaler le firebase_url w"
  have failed: "?run = Some (Inr (),
                \<lparr>stdin = stdin w1,
                 stdout = stdout w1 @ [Print_predicted crop, Print_firebase_error e]\<rparr>)"
    if "?put = Inl e" for e
    using a that by (simp add: predict_and_send_to_firebase_def print_def)
  have sent: "?run = Some (Inr (),
                \<lparr>stdin = stdin w1,
                 stdout = stdout w1 @ [Print_predicted crop,
                                       Print ''Prediction successfully sent to Firebase!'']\<rparr>)"
    if "?put = Inr u" for u
    using a that by (simp add: predict_and_send_to_firebase_def print_def)
  have "\<exists>last_line. ?run = Some (Inr (),
                \<lparr>stdin = stdin w1,
                 stdout = stdout w1 @ [Print_predicted crop, last_line]\<rparr>)"
  proof (cases ?put)
    case (Inl e)
    with failed show ?thesis by blast
  next
    case (Inr u)
    with sent show ?thesis by blast
  qed
  with failed sent show "(\<forall>e. ?put = Inl e \<longrightarrow>
        ?run =
          Some (Inr (),
                \<lparr>stdin = stdin w1,
                 stdout = stdout w1 @ [Print_predicted crop, Print_firebase_error e]\<rparr>))
     \<and>
     (\<forall>u. ?put = Inr u \<longrightarrow>
        ?run =
          Some (Inr (),
                \<lparr>stdin = stdin w1,
                 stdout = stdout w1 @ [Print_predicted crop,
                                       Print ''Prediction successfully sent to Firebase!'']\<rparr>))
     \<and>
     (\<exists>last_line.
        ?run =
          Some (Inr (),
                \<lparr>stdin = stdin w1,
                 stdout = stdout w1 @ [Print_predicted crop, last_line]\<rparr>))"
    by blast
qed

text \<open>The run of claim C8 on the sample collaborators, whose \<open>put\<close> raises.\<close>

theorem put_failure_keeps_prediction_witness:
  "predict_and_send_to_firebase sample_env (\<lambda>row. 1) sample_scaler sample_encoder
     ''https://cropit-eb156.firebaseio.com/'' sample_world =
   Some (Inr (),
         \<lparr>stdin = sconst None,
          stdout =
            [Prompt ''Enter Air Humidity (%): '',
             Prompt (''Enter Air Temperature ('' @ [CHR 0xC2, CHR 0xB0] @ ''C): ''),
             Print ''Invalid input. Please enter a numeric value.'',
             Prompt (''Enter Air Temperature ('' @ [CHR 0xC2, CHR 0xB0] @ ''C): ''),
             Prompt ''Enter Soil pH: '',
             Prompt ''Enter Rainfall (mm): '',
             Print_range 0 300,
             Prompt ''Enter Rainfall (mm): '',
             Print_predicted ''rice'',
             Print_firebase_error (RemoteUnavailable ''timeout'')]\<rparr>)"
  using put_failure_keeps_prediction
    [of sample_env sample_world "[Finite 80, Finite 20, Finite 7, Finite 200]"
        "\<lparr>stdin = sconst None,
            stdout =
              [Prompt ''Enter Air Humidity (%): '',
               Prompt (''Enter Air Temperature ('' @ [CHR 0xC2, CHR 0xB0] @ ''C): ''),
               Print ''Invalid input. Please enter a numeric value.'',
               Prompt (''Enter Air Temperature ('' @ [CHR 0xC2, CHR 0xB0] @ ''C): ''),
               Prompt ''Enter Soil pH: '',
               Prompt ''Enter Rainfall (mm): '',
               Print_range 0 300,
               Prompt ''Enter Rainfall (mm): '']\<rparr>"
        sample_scaler "[[Finite 11, Finite (- 5), Finite 1, Finite 1]]" sample_encoder
        "\<lambda>row. 1" "''rice''" "[]" "''https://cropit-eb156.firebaseio.com/''"]
    gather_inputs_sample sample_prediction
  by (simp add: sample_env_def)

subsection \<open>The gating check in main\<close>

lemma preprocess_data_world:
  assumes "preprocess_data env filepath w = (Inr r, w1)"
  shows "\<exists>data. read_csv env filepath = Inr data \<and>
           w1 = \<lparr>stdin = stdin w,
                 stdout = stdout w @ [Print ''First row of data:'', Print_head (head 1 data)]\<rparr>"
  using assms
  by (auto simp: preprocess_data_def print_def Let_def split: sum.splits prod.splits)

lemma train_and_evaluate_model_world:
  assumes "train_and_evaluate_model env X_train X_test y_train y_test le w1 = (clf, w2)"
  shows "clf = tree_fit env X_train y_train \<and>
         w2 = \<lparr>stdin = stdin w1,
               stdout = stdout w1 @
                 [Print ''Classification Report:'',
                  Print_report (classification_report y_test (map clf X_test) (classes le)),
                  Print_accuracy (accuracy_score y_test (map clf X_test) * 100)]\<rparr>"
  using assms
  by (auto simp: train_and_evaluate_model_def print_def Let_def)

text \<open>
  Claim C7. When preprocessing and training have completed, \<open>main\<close> has read nothing from
  standard input and has written no prompt, and the result of \<open>get('/Realtime', None)\<close> decides
  what follows. If it is \<open>None\<close> (the absent result), nothing is read, nothing is predicted,
  the only further output is the message that retrieval failed, and \<open>main\<close> returns. If it is
  any other value, \<open>main\<close> continues as \<open>predict_and_send_to_firebase\<close>.
\<close>

theorem main_gate:
  "preprocess_data env ''cpdata1.csv'' w =
     (Inr (X_train, X_test, y_train, y_test, le, scaler), w1) \<and>
   train_and_evaluate_model env X_train X_test y_train y_test le w1 = (clf, w2) \<longrightarrow>
     stdin w2 = stdin w \<and>
     (\<exists>d r a. stdout w2 = stdout w @
        [Print ''First row of data:'', Print_head d,
         Print ''Classification Report:'', Print_report r, Print_accuracy a]) \<and>
     (firebase_get env ''https://cropit-eb156.firebaseio.com/'' ''/Realtime'' = Inr None \<longrightarrow>
        main env w =
          Some (Inr (),
                \<lparr>stdin = stdin w,
                 stdout = stdout w2 @ [Print ''Failed to retrieve data from Firebase.'']\<rparr>)) \<and>
     (\<forall>v. firebase_get env ''https://cropit-eb156.firebaseio.com/'' ''/Realtime'' = Inr (Some v) \<longrightarrow>
        main env w =
          predict_and_send_to_firebase env clf scaler le
            ''https://cropit-eb156.firebaseio.com/'' w2)"
proof (intro impI)
  assume a: "preprocess_data env ''cpdata1.csv'' w =
     (Inr (X_train, X_test, y_train, y_test, le, scaler), w1) \<and>
   train_and_evaluate_model env X_train X_test y_train y_test le w1 = (clf, w2)"
  from a preprocess_data_world obtain data where
    w1: "w1 = \<lparr>stdin = stdin w,
              stdout = stdout w @ [Print ''First row of data:'', Print_head (head 1 data)]\<rparr>"
    by blast
  from a train_and_evaluate_model_world
  have w2: "w2 = \<lparr>stdin = stdin w1,
               stdout = stdout w1 @
                 [Print ''Classification Report:'',
                  Print_report (classification_report y_test (map clf X_test) (classes le)),
                  Print_accuracy (accuracy_score y_test (map clf X_test) * 100)]\<rparr>"
    by blast
  have s: "stdin w2 = stdin w"
    using w1 w2 by simp
  have o: "\<exists>d r a. stdout w2 = stdout w @
        [Print ''First row of data:'', Print_head d,
         Print ''Classification Report:'', Print_report r, Print_accuracy a]"
    using w1 w2 by simp
  have n: "firebase_get env ''https://cropit-eb156.firebaseio.com/'' ''/Realtime'' = Inr None \<longrightarrow>
        main env w =
          Some (Inr (),
                \<lparr>stdin = stdin w,
                 stdout = stdout w2 @ [Print ''Failed to retrieve data from Firebase.'']\<rparr>)"
    using a s by (simp add: main_def print_def)
  have p: "\<forall>v. firebase_get env ''https://cropit-eb156.firebaseio.com/'' ''/Realtime'' = Inr (Some v) \<longrightarrow>
        main env w =
          predict_and_send_to_firebase env clf scaler le
            ''https://cropit-eb156.firebaseio.com/'' w2"
    using a by (simp add: main_def)
  from s o n p show "stdin w2 = stdin w \<and>
     (\<exists>d r a. stdout w2 = stdout w @
        [Print ''First row of data:'', Print_head d,
         Print ''Classification Report:'', Print_report r, Print_accuracy a]) \<and>
     (firebase_get env ''https://cropit-eb156.firebaseio.com/'' ''/Realtime'' = Inr None \<longrightarrow>
        main env w =
          Some (Inr (),
                \<lparr>stdin = stdin w,
                 stdout = stdout w2 @ [Print ''Failed to retrieve data from Firebase.'']\<rparr>)) \<and>
     (\<forall>v. firebase_get env ''https://cropit-eb156.firebaseio.com/'' ''/Realtime'' = Inr (Some v) \<longrightarrow>
        main env w =
          predict_and_send_to_firebase env clf scaler le
            ''https://cropit-eb156.firebaseio.com/'' w2)"
    by blast
qed

lemma sample_split:
  "sample_permutation 42 (Suc (Suc (Suc (Suc 0)))) = [2, 3, 0, 1]"
  "nat (round (6 / 5 :: real)) = 1"
  by (simp_all add: sample_permutation_def rotate_def eval_nat_numeral upt_rec round_def)

lemma sample_encode_and_split:
  assumes "rng_permutation env = sample_permutation"
  shows "encode_and_split env sample_table =
     Inr ([[26, 75, 7, 250], [20, 80, 6, 200], [30, 60, 7, 100]], [[24, 65, 5, 50]],
          [0, 1, 0], [1],
          \<lparr>classes = [''maize'', ''rice'']\<rparr>)"
  using assms
  by (simp add: encode_and_split_def sample_table_def get_column_def le_fit_transform_def
      le_fit_def le_transform_def encode_def set_column_def drop_columns_def to_rows_def
      train_test_split_def split_indices_def sample_split Let_def upt_rec)

lemma sample_preprocess_data:
  assumes "rng_permutation env = sample_permutation"
    and "read_csv env ''cpdata1.csv'' = Inr sample_table"
  shows "\<exists>X_train X_test scaler w1.
           preprocess_data env ''cpdata1.csv'' w =
             (Inr (X_train, X_test, [0, 1, 0], [1], \<lparr>classes = [''maize'', ''rice'']\<rparr>, scaler),
              w1)"
  using assms
  by (simp add: preprocess_data_def sample_encode_and_split scaler_fit_transform_def
      scaler_fit_def scaler_transform_def columns_of_def Let_def upt_rec)

text \<open>
  The run of claim C7 on the sample collaborators: once with a store that returns \<open>None\<close>,
  once with a store that returns the empty string, which is not \<open>None\<close>.
\<close>

theorem main_gate_witness:
  "(\<exists>d r a.
      main (sample_env\<lparr>firebase_get := (\<lambda>url path. Inr None)\<rparr>) sample_world =
        Some (Inr (),
              \<lparr>stdin = stdin sample_world,
               stdout = [Print ''First row of data:'', Print_head d,
                         Print ''Classification Report:'', Print_report r, Print_accuracy a,
                         Print ''Failed to retrieve data from Firebase.'']\<rparr>))
   \<and>
   (\<exists>clf scaler le w2.
      main sample_env sample_world =
        predict_and_send_to_firebase sample_env clf scaler le
          ''https://cropit-eb156.firebaseio.com/'' w2 \<and>
      stdin w2 = stdin sample_world)"
proof
  let ?env = "sample_env\<lparr>firebase_get := (\<lambda>url path. Inr None)\<rparr>"
  obtain X_train X_test scaler w1 where
    p: "preprocess_data ?env ''cpdata1.csv'' sample_world =
          (Inr (X_train, X_test, [0, 1, 0], [1], \<lparr>classes = [''maize'', ''rice'']\<rparr>, scaler), w1)"
    using sample_preprocess_data [of ?env sample_world] by (auto simp: sample_env_def)
  obtain clf w2 where
    t: "train_and_evaluate_model ?env X_train X_test [0, 1, 0] [1]
          \<lparr>classes = [''maize'', ''rice'']\<rparr> w1 = (clf, w2)"
    by (cases "train_and_evaluate_model ?env X_train X_test [0, 1, 0] [1]
          \<lparr>classes = [''maize'', ''rice'']\<rparr> w1") blast
  have g: "firebase_get ?env ''https://cropit-eb156.firebaseio.com/'' ''/Realtime'' = Inr None"
    by simp
  from main_gate [of ?env sample_world X_train X_test "[0, 1, 0]" "[1]"
      "\<lparr>classes = [''maize'', ''rice'']\<rparr>" scaler w1 clf w2] p t g
  show "\<exists>d r a.
      main ?env sample_world =
        Some (Inr (),
              \<lparr>stdin = stdin sample_world,
               stdout = [Print ''First row of data:'', Print_head d,
                         Print ''Classification Report:'', Print_report r, Print_accuracy a,
                         Print ''Failed to retrieve data from Firebase.'']\<rparr>)"
    by (auto simp: sample_world_def)
next
  obtain X_train X_test scaler w1 where
    p: "preprocess_data sample_env ''cpdata1.csv'' sample_world =
          (Inr (X_train, X_test, [0, 1, 0], [1], \<lparr>classes = [''maize'', ''rice'']\<rparr>, scaler), w1)"
    using sample_preprocess_data [of sample_env sample_world] by (auto simp: sample_env_def)
  obtain clf w2 where
    t: "train_and_evaluate_model sample_env X_train X_test [0, 1, 0] [1]
          \<lparr>classes = [''maize'', ''rice'']\<rparr> w1 = (clf, w2)"
    by (cases "train_and_evaluate_model sample_env X_train X_test [0, 1, 0] [1]
          \<lparr>classes = [''maize'', ''rice'']\<rparr> w1") blast
  have g: "firebase_get sample_env ''https://cropit-eb156.firebaseio.com/'' ''/Realtime''
             = Inr (Some (JStr []))"
    by (simp add: sample_env_def)
  from main_gate [of sample_env sample_world X_train X_test "[0, 1, 0]" "[1]"
      "\<lparr>classes = [''maize'', ''rice'']\<rparr>" scaler w1 clf w2] p t g
  show "\<exists>clf scaler le w2.
      main sample_env sample_world =
        predict_and_send_to_firebase sample_env clf scaler le
          ''https://cropit-eb156.firebaseio.com/'' w2 \<and>
      stdin w2 = stdin sample_world"
    by blast
qed

subsection \<open>LabelEncoder round trip\<close>

lemma index_of_None: "index_of x xs = None \<longleftrightarrow> x \<notin> set xs"
  by (induction xs) auto

lemma index_of_Some: "index_of x xs = Some i \<Longrightarrow> i < length xs \<and> xs ! i = x"
  by (induction xs arbitrary: i) (auto split: if_splits)

lemma set_classes_le_fit: "set (classes (le_fit labels)) = set labels"
  by (simp add: le_fit_def)

lemma encode_decode:
  assumes "encode le l = Inr c"
  shows "decode le c = Inr l"
  using assms index_of_Some [of l "classes le" c]
  by (auto simp: encode_def decode_def split: option.splits)

lemma traverse_encode_decode:
  assumes "set ls \<subseteq> set (classes le)"
  shows "\<exists>cs. traverse (encode le) ls = Inr cs \<and> traverse (decode le) cs = Inr ls"
  using assms
proof (induction ls)
  case Nil
  then show ?case by simp
next
  case (Cons l ls)
  then obtain cs where cs: "traverse (encode le) ls = Inr cs" "traverse (decode le) cs = Inr ls"
    by auto
  from Cons.prems obtain c where c: "encode le l = Inr c"
    by (cases "index_of l (classes le)") (auto simp: encode_def index_of_None)
  with cs encode_decode [OF c] show ?case by simp
qed

text \<open>
  Claim C2. For every list of labels used at fit time: a label seen during fit has a code,
  and decoding that code returns the label; a label absent from the fit set has no code,
  encoding it fails with \<open>UnknownLabel\<close>. In the array form the notebook uses, decoding the
  codes of \<open>fit_transform\<close> gives back the labels.
\<close>

theorem label_encoder_round_trip:
  "(l \<in> set labels \<longrightarrow>
      (\<exists>c. encode (le_fit labels) l = Inr c \<and> decode (le_fit labels) c = Inr l))
   \<and> (l \<notin> set labels \<longrightarrow> encode (le_fit labels) l = Inl UnknownLabel)
   \<and> (\<exists>codes. le_fit_transform labels = Inr (le_fit labels, codes) \<and>
               le_inverse_transform (le_fit labels) codes = Inr labels)"
proof (intro conjI impI)
  assume "l \<in> set labels"
  then obtain c where c: "encode (le_fit labels) l = Inr c"
    by (cases "index_of l (classes (le_fit labels))")
       (auto simp: encode_def index_of_None set_classes_le_fit)
  with encode_decode [OF c]
  show "\<exists>c. encode (le_fit labels) l = Inr c \<and> decode (le_fit labels) c = Inr l"
    by blast
next
  assume "l \<notin> set labels"
  then have "index_of l (classes (le_fit labels)) = None"
    by (simp add: index_of_None set_classes_le_fit)
  then show "encode (le_fit labels) l = Inl UnknownLabel"
    by (simp add: encode_def)
next
  from traverse_encode_decode [of labels "le_fit labels"]
  show "\<exists>codes. le_fit_transform labels = Inr (le_fit labels, codes) \<and>
               le_inverse_transform (le_fit labels) codes = Inr labels"
    by (auto simp: le_fit_transform_def le_transform_def le_inverse_transform_def
        set_classes_le_fit)
qed

text \<open>Claim C2 on the labels \<open>rice\<close>, \<open>maize\<close>, \<open>rice\<close>, with \<open>wheat\<close> as the unseen label.\<close>

theorem label_encoder_round_trip_witness:
  "''rice'' \<in> set [''rice'', ''maize'', ''rice'']
   \<and> encode (le_fit [''rice'', ''maize'', ''rice'']) ''rice'' = Inr 1
   \<and> decode (le_fit [''rice'', ''maize'', ''rice'']) 1 = Inr ''rice''
   \<and> ''wheat'' \<notin> set [''rice'', ''maize'', ''rice'']
   \<and> encode (le_fit [''rice'', ''maize'', ''rice'']) ''wheat'' = Inl UnknownLabel"
proof -
  have e: "encode (le_fit [''rice'', ''maize'', ''rice'']) ''rice'' = Inr 1"
    by (simp add: encode_def le_fit_def)
  from label_encoder_round_trip [of "''rice''" "[''rice'', ''maize'', ''rice'']"] e
  have "decode (le_fit [''rice'', ''maize'', ''rice'']) 1 = Inr ''rice''"
    by auto
  moreover from label_encoder_round_trip [of "''wheat''" "[''rice'', ''maize'', ''rice'']"]
  have "encode (le_fit [''rice'', ''maize'', ''rice'']) ''wheat'' = Inl UnknownLabel"
    by simp
  ultimately show ?thesis using e by simp
qed

subsection \<open>DatasetSplitter: the partition\<close>

lemma round_fraction_le:
  assumes "0 \<le> ratio" and "ratio \<le> 1"
  shows "nat (round (ratio * real n)) \<le> n"
proof -
  have "ratio * real n \<le> real n"
    using assms by (simp add: mult_left_le_one_le)
  then have "round (ratio * real n) \<le> round (real n)"
    by (rule round_mono)
  then show ?thesis by simp
qed

lemma round_fraction_close:
  assumes "0 \<le> ratio"
  shows "\<bar>real (nat (round (ratio * real n))) - ratio * real n\<bar> \<le> 1 / 2"
proof -
  have "0 \<le> ratio * real n" using assms by simp
  then have "0 \<le> round (ratio * real n)"
    using round_mono [of 0 "ratio * real n"] by simp
  then have "real (nat (round (ratio * real n))) = of_int (round (ratio * real n))"
    by simp
  then show ?thesis
    using of_int_round_abs_le [of "ratio * real n"] by simp
qed

text \<open>
  Claim C3. For every number of rows \<open>N\<close>, every ratio between 0 and 1 and every seed, when
  the generator draws a permutation of the row indices: the train and test index sets are
  disjoint, their union is \<open>{0..<N}\<close>, no index is repeated, and the test set has exactly
  \<open>round(ratio * N)\<close> indices, which is within one half of \<open>ratio * N\<close>. The partition is a
  function of \<open>N\<close>, the ratio and the seed alone, and \<open>train_test_split\<close> selects the rows and
  labels at exactly these indices, so the same seed gives the same partition.
\<close>

theorem split_is_partition:
  "distinct (permutation seed N) \<and> set (permutation seed N) = {0..<N} \<and>
   0 \<le> ratio \<and> ratio \<le> 1 \<and>
   split_indices permutation N ratio seed = (train, test) \<longrightarrow>
     set train \<inter> set test = {} \<and>
     set train \<union> set test = {0..<N} \<and>
     distinct train \<and> distinct test \<and>
     length test = nat (round (ratio * real N)) \<and>
     length train + length test = N \<and>
     \<bar>real (length test) - ratio * real N\<bar> \<le> 1 / 2 \<and>
     (\<forall>X y. length X = N \<longrightarrow>
        train_test_split permutation X y ratio seed =
          (map (\<lambda>i. X ! i) train, map (\<lambda>i. X ! i) test,
           map (\<lambda>i. y ! i) train, map (\<lambda>i. y ! i) test))"
proof (intro impI)
  let ?p = "permutation seed N"
  let ?k = "nat (round (ratio * real N))"
  assume a: "distinct ?p \<and> set ?p = {0..<N} \<and> 0 \<le> ratio \<and> ratio \<le> 1 \<and>
   split_indices permutation N ratio seed = (train, test)"
  then have tr: "train = drop ?k ?p" and te: "test = take ?k ?p"
    by (simp_all add: split_indices_def Let_def)
  have len: "length ?p = N"
    using a distinct_card [of ?p] by simp
  have k: "?k \<le> N"
    using a round_fraction_le by simp
  have d: "distinct (take ?k ?p @ drop ?k ?p)"
    using a by simp
  have 1: "set train \<inter> set test = {}"
    using d tr te by (auto simp del: append_take_drop_id)
  have 2: "set train \<union> set test = {0..<N}"
    using a tr te set_append [of "take ?k ?p" "drop ?k ?p"] by auto
  have 3: "distinct train \<and> distinct test"
    using a tr te by simp
  have 4: "length test = ?k"
    using te len k by simp
  have 5: "length train + length test = N"
    using tr te len k by simp
  have 6: "\<bar>real (length test) - ratio * real N\<bar> \<le> 1 / 2"
    using 4 a round_fraction_close [of ratio N] by simp
  have 7: "\<forall>X y. length X = N \<longrightarrow>
        train_test_split permutation X y ratio seed =
          (map (\<lambda>i. X ! i) train, map (\<lambda>i. X ! i) test,
           map (\<lambda>i. y ! i) train, map (\<lambda>i. y ! i) test)"
    using a by (simp add: train_test_split_def)
  from 1 2 3 4 5 6 7 show "set train \<inter> set test = {} \<and>
     set train \<union> set test = {0..<N} \<and>
     distinct train \<and> distinct test \<and>
     length test = nat (round (ratio * real N)) \<and>
     length train + length test = N \<and>
     \<bar>real (length test) - ratio * real N\<bar> \<le> 1 / 2 \<and>
     (\<forall>X y. length X = N \<longrightarrow>
        train_test_split permutation X y ratio seed =
          (map (\<lambda>i. X ! i) train, map (\<lambda>i. X ! i) test,
           map (\<lambda>i. y ! i) train, map (\<lambda>i. y ! i) test))"
    by blast
qed

lemma sample_permutation_valid:
  "distinct (sample_permutation seed n) \<and> set (sample_permutation seed n) = {0..<n}"
  by (simp add: sample_permutation_def)

text \<open>Claim C3 on four rows, the ratio 0.3 and the seed 42 of the notebook.\<close>

theorem split_is_partition_witness:
  "split_indices sample_permutation 4 (3 / 10) 42 = ([3, 0, 1], [2])
   \<and> set [3, 0, 1] \<inter> set [2] = ({} :: nat set)
   \<and> set [3, 0, 1] \<union> set [2] = {0..<(4::nat)}
   \<and> length [2 :: nat] = nat (round (3 / 10 * real (4 :: nat)))"
proof -
  have s: "split_indices sample_permutation 4 (3 / 10) 42 = ([3, 0, 1], [2])"
    using sample_split by (simp add: split_indices_def eval_nat_numeral)
  from split_is_partition [of sample_permutation 42 4 "3 / 10" "[3, 0, 1]" "[2]"]
    sample_permutation_valid [of 42 4] s
  have "set [3, 0, 1] \<inter> set [2] = ({} :: nat set)
   \<and> set [3, 0, 1] \<union> set [2] = {0..<(4::nat)}
   \<and> length [2 :: nat] = nat (round (3 / 10 * real (4 :: nat)))"
    by force
  with s show ?thesis by blast
qed

subsection \<open>FeatureScaler: what the statistics depend on\<close>

lemma fitted_scaler_is_fit_of_train:
  assumes "read_csv env filepath = Inr data"
    and "encode_and_split env data = Inr (X_train, X_test, y_train, y_test, le)"
    and "fitted_scaler (preprocess_data env filepath w) = Inr sc"
  shows "scaler_fit X_train = Inr sc"
  using assms
  by (auto simp: fitted_scaler_def preprocess_data_def scaler_fit_transform_def Let_def
      split: sum.splits prod.splits)

text \<open>
  Claim C4. The statistics \<open>preprocess_data\<close> returns are a function of the training rows
  only. Take two runs, on two tables, whose training rows \<open>X_train\<close> are equal, while the test
  rows, the labels and the encoders may differ: every scaler returned by the first run is
  \<open>scaler_fit X_train\<close>, and so is every scaler returned by the second, so the two are equal.
  The scaler is a value: \<open>scaler_transform\<close>, applied later to the test rows or to a
  prediction vector, returns scaled rows and no new scaler.
\<close>

theorem scaler_depends_on_train_only:
  "read_csv env file1 = Inr data1 \<and> read_csv env file2 = Inr data2 \<and>
   encode_and_split env data1 = Inr (X_train, X_test1, y_train1, y_test1, le1) \<and>
   encode_and_split env data2 = Inr (X_train, X_test2, y_train2, y_test2, le2) \<and>
   fitted_scaler (preprocess_data env file1 w1) = Inr sc1 \<and>
   fitted_scaler (preprocess_data env file2 w2) = Inr sc2 \<longrightarrow>
     sc1 = sc2 \<and> scaler_fit X_train = Inr sc1"
proof (intro impI)
  assume a: "read_csv env file1 = Inr data1 \<and> read_csv env file2 = Inr data2 \<and>
   encode_and_split env data1 = Inr (X_train, X_test1, y_train1, y_test1, le1) \<and>
   encode_and_split env data2 = Inr (X_train, X_test2, y_train2, y_test2, le2) \<and>
   fitted_scaler (preprocess_data env file1 w1) = Inr sc1 \<and>
   fitted_scaler (preprocess_data env file2 w2) = Inr sc2"
  then have "scaler_fit X_train = Inr sc1"
    using fitted_scaler_is_fit_of_train [of env file1 data1 X_train X_test1 y_train1 y_test1 le1 w1 sc1]
    by blast
  moreover from a have "scaler_fit X_train = Inr sc2"
    using fitted_scaler_is_fit_of_train [of env file2 data2 X_train X_test2 y_train2 y_test2 le2 w2 sc2]
    by blast
  ultimately show "sc1 = sc2 \<and> scaler_fit X_train = Inr sc1"
    by simp
qed

lemma other_encode_and_split:
  assumes "rng_permutation env = sample_permutation"
  shows "encode_and_split env other_table =
     Inr ([[26, 75, 7, 250], [20, 80, 6, 200], [30, 60, 7, 100]], [[40, 10, 9, 0]],
          [0, 1, 0], [2],
          \<lparr>classes = [''maize'', ''rice'', ''wheat'']\<rparr>)"
  using assms
  by (simp add: encode_and_split_def other_table_def get_column_def le_fit_transform_def
      le_fit_def le_transform_def encode_def set_column_def drop_columns_def to_rows_def
      train_test_split_def split_indices_def sample_split Let_def upt_rec)

lemma fitted_scaler_of_split:
  assumes "read_csv env filepath = Inr data"
    and "encode_and_split env data = Inr (row # X_train, X_test, y_train, y_test, le)"
    and "list_all (\<lambda>r. length r = length row) (X_train @ X_test)"
  shows "fitted_scaler (preprocess_data env filepath w) = scaler_fit (row # X_train)"
  using assms
  by (simp add: fitted_scaler_def preprocess_data_def scaler_fit_transform_def Let_def
      scaler_fit_def scaler_transform_def columns_of_def list_all_iff)

text \<open>
  Claim C4 on two tables that differ only in the row that falls into the test set, and in
  its label.
\<close>

theorem scaler_depends_on_train_only_witness:
  "\<exists>sc.
     fitted_scaler
       (preprocess_data
          (sample_env\<lparr>read_csv := (\<lambda>filepath. if filepath = ''other.csv'' then Inr other_table
                                              else Inr sample_table)\<rparr>)
          ''cpdata1.csv'' sample_world) = Inr sc \<and>
     fitted_scaler
       (preprocess_data
          (sample_env\<lparr>read_csv := (\<lambda>filepath. if filepath = ''other.csv'' then Inr other_table
                                              else Inr sample_table)\<rparr>)
          ''other.csv'' sample_world) = Inr sc \<and>
     scaler_fit [[26, 75, 7, 250], [20, 80, 6, 200], [30, 60, 7, 100]] = Inr sc"
proof -
  let ?env = "sample_env\<lparr>read_csv := (\<lambda>filepath. if filepath = ''other.csv'' then Inr other_table
                                              else Inr sample_table)\<rparr>"
  let ?X = "[[26, 75, 7, 250], [20, 80, 6, 200], [30, 60, 7, 100]] :: real list list"
  have p: "rng_permutation ?env = sample_permutation"
    by (simp add: sample_env_def)
  have r1: "read_csv ?env ''cpdata1.csv'' = Inr sample_table"
    and r2: "read_csv ?env ''other.csv'' = Inr other_table"
    by simp_all
  obtain sc where sc: "scaler_fit ?X = Inr sc"
    by (simp add: scaler_fit_def)
  have f1: "fitted_scaler (preprocess_data ?env ''cpdata1.csv'' sample_world) = Inr sc"
    using fitted_scaler_of_split [OF r1 sample_encode_and_split [OF p]] sc by simp
  have f2: "fitted_scaler (preprocess_data ?env ''other.csv'' sample_world) = Inr sc"
    using fitted_scaler_of_split [OF r2 other_encode_and_split [OF p]] sc by simp
  from scaler_depends_on_train_only
    [of ?env "''cpdata1.csv''" sample_table "''other.csv''" other_table ?X
        "[[24, 65, 5, 50]]" "[0, 1, 0]" "[1]" "\<lparr>classes = [''maize'', ''rice'']\<rparr>"
        "[[40, 10, 9, 0]]" "[0, 1, 0]" "[2]" "\<lparr>classes = [''maize'', ''rice'', ''wheat'']\<rparr>"
        sample_world sc sample_world sc]
    r1 r2 sample_encode_and_split [OF p] other_encode_and_split [OF p] f1 f2
  have "scaler_fit ?X = Inr sc" by blast
  with f1 f2 show ?thesis by blast
qed

subsection \<open>Evaluator: the metrics of one class\<close>

lemma support_is_TP_plus_FN:
  assumes "length y_true = length y_pred"
  shows "length (filter (\<lambda>t. t = c) y_true) = TP y_true y_pred c + FN y_true y_pred c"
  using assms
  by (induction y_true y_pred rule: list_induct2) (auto simp: TP_def FN_def)

text \<open>
  Claim C5. For an evaluation whose confusion counts for class \<open>c\<close> are TP = 8, FP = 2 and
  FN = 1, over true and predicted codes of the same length, the report for \<open>c\<close> has precision
  0.8, recall 8/9 (0.889 to three places), f1 16/19 (0.842 to three places) and support 9.
  In every evaluation the three ratios follow the stated formulas, and each is 0 when its
  denominator is 0.
\<close>

theorem class_report_worked_example:
  "(length y_true = length y_pred \<and>
    TP y_true y_pred c = 8 \<and> FP y_true y_pred c = 2 \<and> FN y_true y_pred c = 1 \<longrightarrow>
      precision (class_report y_true y_pred c) = 8 / 10 \<and>
      recall (class_report y_true y_pred c) = 8 / 9 \<and>
      \<bar>recall (class_report y_true y_pred c) - 889 / 1000\<bar> < 5 / 10000 \<and>
      f1 (class_report y_true y_pred c) = 16 / 19 \<and>
      \<bar>f1 (class_report y_true y_pred c) - 842 / 1000\<bar> < 5 / 10000 \<and>
      support (class_report y_true y_pred c) = 9)
   \<and>
   precision (class_report y_true y_pred c) =
     (if TP y_true y_pred c + FP y_true y_pred c = 0 then 0
      else real (TP y_true y_pred c) / real (TP y_true y_pred c + FP y_true y_pred c))
   \<and>
   recall (class_report y_true y_pred c) =
     (if TP y_true y_pred c + FN y_true y_pred c = 0 then 0
      else real (TP y_true y_pred c) / real (TP y_true y_pred c + FN y_true y_pred c))
   \<and>
   f1 (class_report y_true y_pred c) =
     (if precision (class_report y_true y_pred c) = 0 \<and> recall (class_report y_true y_pred c) = 0
      then 0
      else 2 * precision (class_report y_true y_pred c) * recall (class_report y_true y_pred c)
           / (precision (class_report y_true y_pred c) + recall (class_report y_true y_pred c)))"
proof (intro conjI impI)
  assume a: "length y_true = length y_pred \<and>
    TP y_true y_pred c = 8 \<and> FP y_true y_pred c = 2 \<and> FN y_true y_pred c = 1"
  then show "precision (class_report y_true y_pred c) = 8 / 10"
    by (simp add: class_report_def precision_of_def Let_def)
  from a show r: "recall (class_report y_true y_pred c) = 8 / 9"
    by (simp add: class_report_def recall_of_def Let_def)
  from r show "\<bar>recall (class_report y_true y_pred c) - 889 / 1000\<bar> < 5 / 10000"
    by simp
  from a show f: "f1 (class_report y_true y_pred c) = 16 / 19"
    by (simp add: class_report_def precision_of_def recall_of_def f1_of_def Let_def)
  from f show "\<bar>f1 (class_report y_true y_pred c) - 842 / 1000\<bar> < 5 / 10000"
    by simp
  from a show "support (class_report y_true y_pred c) = 9"
    using support_is_TP_plus_FN [of y_true y_pred c] by (simp add: class_report_def Let_def)
next
  show "precision (class_report y_true y_pred c) =
     (if TP y_true y_pred c + FP y_true y_pred c = 0 then 0
      else real (TP y_true y_pred c) / real (TP y_true y_pred c + FP y_true y_pred c))"
    by (simp add: class_report_def precision_of_def Let_def)
next
  show "recall (class_report y_true y_pred c) =
     (if TP y_true y_pred c + FN y_true y_pred c = 0 then 0
      else real (TP y_true y_pred c) / real (TP y_true y_pred c + FN y_true y_pred c))"
    by (simp add: class_report_def recall_of_def Let_def)
next
  have p: "0 \<le> precision_of tp fp" for tp fp
    by (simp add: precision_of_def)
  have r: "0 \<le> recall_of tp fn" for tp fn
    by (simp add: recall_of_def)
  have "x + y = 0 \<longleftrightarrow> x = 0 \<and> y = 0" if "0 \<le> x" "0 \<le> y" for x y :: real
    using that by linarith
  then show "f1 (class_report y_true y_pred c) =
     (if precision (class_report y_true y_pred c) = 0 \<and> recall (class_report y_true y_pred c) = 0
      then 0
      else 2 * precision (class_report y_true y_pred c) * recall (class_report y_true y_pred c)
           / (precision (class_report y_true y_pred c) + recall (class_report y_true y_pred c)))"
    using p r by (simp add: class_report_def f1_of_def Let_def)
qed

lemma sample_confusion:
  "TP sample_true sample_pred 0 = 8" "FP sample_true sample_pred 0 = 2"
  "FN sample_true sample_pred 0 = 1" "TN sample_true sample_pred 0 = 9"
  "length sample_true = length sample_pred"
  by (simp_all add: TP_def FP_def FN_def TN_def sample_true_def sample_pred_def)

text \<open>
  Claim C5 on twenty test samples of two classes, class A with code 0, whose confusion
  matrix for A is TP = 8, FP = 2, FN = 1, TN = 9.
\<close>

theorem class_report_worked_example_witness:
  "TP sample_true sample_pred 0 = 8 \<and> FP sample_true sample_pred 0 = 2 \<and>
   FN sample_true sample_pred 0 = 1 \<and> TN sample_true sample_pred 0 = 9 \<and>
   precision (class_report sample_true sample_pred 0) = 8 / 10 \<and>
   recall (class_report sample_true sample_pred 0) = 8 / 9 \<and>
   f1 (class_report sample_true sample_pred 0) = 16 / 19 \<and>
   support (class_report sample_true sample_pred 0) = 9"
  using class_report_worked_example [of sample_true sample_pred 0] sample_confusion
  by blast

subsection \<open>The order of the features at prediction\<close>

text \<open>
  Claim C1 says that the four inputs are arranged in the column order of the training table.
  They are not. The recorded table has the columns temperature, humidity, ph, rainfall, and
  \<open>X\<close> keeps that order; the prompts ask for humidity first and temperature second. On a
  table with the recorded header, whose training rows have the temperatures 26, 20, 30 and
  the humidities 75, 80, 60, the answers humidity 80, temperature 20, pH 7, rainfall 200
  reach the scaler as the vector (80, 20, 7, 200): the humidity 80 is centred with the mean
  of the training temperatures and the temperature 20 with the mean of the training
  humidities.
\<close>

theorem humidity_scaled_with_temperature_statistics:
  "map fst recorded_head = [''temperature'', ''humidity'', ''ph'', ''rainfall'', ''label'']
   \<and> map fst sample_table = map fst recorded_head
   \<and> map fst input_ranges =
       [''Air Humidity (%)'', ''Air Temperature ('' @ [CHR 0xC2, CHR 0xB0] @ ''C)'',
        ''Soil pH'', ''Rainfall (mm)'']
   \<and> encode_and_split sample_env sample_table =
       Inr ([[26, 75, 7, 250], [20, 80, 6, 200], [30, 60, 7, 100]], [[24, 65, 5, 50]],
            [0, 1, 0], [1], \<lparr>classes = [''maize'', ''rice'']\<rparr>)
   \<and> (\<exists>sc s0 s1 s2 s3 w1.
         fitted_scaler (preprocess_data sample_env ''cpdata1.csv'' sample_world) = Inr sc \<and>
         scaler_mean sc =
           [average [26, 20, 30], average [75, 80, 60], average [7, 6, 7],
            average [250, 200, 100]] \<and>
         scaler_scale sc = [s0, s1, s2, s3] \<and>
         gather_inputs sample_env input_ranges sample_world =
           Some (Inr [Finite 80, Finite 20, Finite 7, Finite 200], w1) \<and>
         scaler_transform sc [[Finite 80, Finite 20, Finite 7, Finite 200]] =
           Inr [[Finite ((80 - average [26, 20, 30]) / s0),
                 Finite ((20 - average [75, 80, 60]) / s1),
                 Finite ((7 - average [7, 6, 7]) / s2),
                 Finite ((200 - average [250, 200, 100]) / s3)]])"
proof (intro conjI)
  show "map fst recorded_head = [''temperature'', ''humidity'', ''ph'', ''rainfall'', ''label'']"
    by (simp add: recorded_head_def)
  show "map fst sample_table = map fst recorded_head"
    by (simp add: recorded_head_def sample_table_def)
  show "map fst input_ranges =
       [''Air Humidity (%)'', ''Air Temperature ('' @ [CHR 0xC2, CHR 0xB0] @ ''C)'',
        ''Soil pH'', ''Rainfall (mm)'']"
    by (simp add: input_ranges_def)
  have p: "rng_permutation sample_env = sample_permutation"
    and r: "read_csv sample_env ''cpdata1.csv'' = Inr sample_table"
    by (simp_all add: sample_env_def)
  show e: "encode_and_split sample_env sample_table =
       Inr ([[26, 75, 7, 250], [20, 80, 6, 200], [30, 60, 7, 100]], [[24, 65, 5, 50]],
            [0, 1, 0], [1], \<lparr>classes = [''maize'', ''rice'']\<rparr>)"
    by (rule sample_encode_and_split [OF p])
  let ?X = "[[26, 75, 7, 250], [20, 80, 6, 200], [30, 60, 7, 100]] :: real list list"
  let ?sc = "\<lparr>scaler_mean = map average (columns_of ?X),
             scaler_scale = map (\<lambda>c. handle_zeros (std c)) (columns_of ?X)\<rparr>"
  have c: "columns_of ?X = [[26, 20, 30], [75, 80, 60], [7, 6, 7], [250, 200, 100]]"
    by (simp add: columns_of_def upt_rec)
  have f: "fitted_scaler (preprocess_data sample_env ''cpdata1.csv'' sample_world) = Inr ?sc"
    using fitted_scaler_of_split [OF r e] by (simp add: scaler_fit_def)
  have m: "scaler_mean ?sc =
           [average [26, 20, 30], average [75, 80, 60], average [7, 6, 7],
            average [250, 200, 100]]"
    by (simp add: c)
  have s: "scaler_scale ?sc =
           [handle_zeros (std [26, 20, 30]), handle_zeros (std [75, 80, 60]),
            handle_zeros (std [7, 6, 7]), handle_zeros (std [250, 200, 100])]"
    by (simp add: c)
  have t: "scaler_transform ?sc [[Finite 80, Finite 20, Finite 7, Finite 200]] =
           Inr [[Finite ((80 - average [26, 20, 30]) / handle_zeros (std [26, 20, 30])),
                 Finite ((20 - average [75, 80, 60]) / handle_zeros (std [75, 80, 60])),
                 Finite ((7 - average [7, 6, 7]) / handle_zeros (std [7, 6, 7])),
                 Finite ((200 - average [250, 200, 100]) / handle_zeros (std [250, 200, 100]))]]"
    by (simp add: scaler_transform_def c)
  from f m s t gather_inputs_sample
  show "\<exists>sc s0 s1 s2 s3 w1.
         fitted_scaler (preprocess_data sample_env ''cpdata1.csv'' sample_world) = Inr sc \<and>
         scaler_mean sc =
           [average [26, 20, 30], average [75, 80, 60], average [7, 6, 7],
            average [250, 200, 100]] \<and>
         scaler_scale sc = [s0, s1, s2, s3] \<and>
         gather_inputs sample_env input_ranges sample_world =
           Some (Inr [Finite 80, Finite 20, Finite 7, Finite 200], w1) \<and>
         scaler_transform sc [[Finite 80, Finite 20, Finite 7, Finite 200]] =
           Inr [[Finite ((80 - average [26, 20, 30]) / s0),
                 Finite ((20 - average [75, 80, 60]) / s1),
                 Finite ((7 - average [7, 6, 7]) / s2),
                 Finite ((200 - average [250, 200, 100]) / s3)]]"
    by blast
qed

end
